theory Spec2Isabelle
  imports Main "HOL-Library.Char_ord" "HOL-Library.List_Lexorder" "HOL-Library.AList"
begin

section \<open>The \<open>predict-after-extraction\<close> command of morphoclass\<close>

text \<open>
  The development embeds \<^verbatim>\<open>src/morphoclass/console/cmd_predict.py\<close>: the command
  handler \<^verbatim>\<open>predict\<close> and the three routines \<^verbatim>\<open>predict_gnn\<close>,
  \<^verbatim>\<open>predict_cnn\<close> and \<^verbatim>\<open>predict_xgb\<close>. Everything the script reaches outside
  this file (torch, the model classes, the dataset classes, pathlib's parsing) is a field
  of an environment record; the file system, the terminal input and the sequence of
  observable actions form an explicit world that every step takes and returns.
\<close>

subsection \<open>Python strings\<close>

text \<open>
  Strings are byte lists (UTF-8). The needles the script searches for are ASCII, so a
  substring test on bytes agrees with Python's test on code points.
\<close>

definition startswith :: "string \<Rightarrow> string \<Rightarrow> bool" where
  "startswith s pre = (take (length pre) s = pre)"

definition endswith :: "string \<Rightarrow> string \<Rightarrow> bool" where
  "endswith s suf = (length suf \<le> length s \<and> drop (length s - length suf) s = suf)"

text \<open>\<^verbatim>\<open>sub in s\<close>\<close>

fun py_in :: "string \<Rightarrow> string \<Rightarrow> bool" where
  "py_in sub [] = (sub = [])"
| "py_in sub (c # cs) = (startswith (c # cs) sub \<or> py_in sub cs)"

text \<open>
  \<^verbatim>\<open>s.rpartition(".")[2]\<close>: the text after the last dot, the whole string when it has
  no dot. The accumulator holds the characters read since the last dot seen.
\<close>

fun after_last_dot :: "string \<Rightarrow> string \<Rightarrow> string" where
  "after_last_dot acc [] = acc"
| "after_last_dot acc (c # cs) =
     (if c = CHR ''.'' then after_last_dot [] cs else after_last_dot (acc @ [c]) cs)"

definition rpartition_dot_2 :: "string \<Rightarrow> string" where
  "rpartition_dot_2 s = after_last_dot [] s"

text \<open>
  \<^verbatim>\<open>response.strip()\<close> removes, at both ends, the characters for which
  \<^verbatim>\<open>str.isspace\<close> holds. There are 29 of them: U+0009 to U+000D, U+001C to U+0020,
  U+0085, U+00A0, U+1680, U+2000 to U+200A, U+2028, U+2029, U+202F, U+205F and U+3000.
  \<open>white_space\<close> lists their UTF-8 encodings. No encoding is the beginning of another,
  and an encoding that ends a well-formed string is the encoding of its last character, so
  removing encodings at the ends of the bytes removes exactly these characters.
\<close>

definition white_space :: "string list" where
  "white_space =
     map (\<lambda>n. [char_of n]) ([9..<14] @ [28..<33 :: nat])
     @ [[CHR 0xC2, CHR 0x85], [CHR 0xC2, CHR 0xA0], [CHR 0xE1, CHR 0x9A, CHR 0x80]]
     @ map (\<lambda>n. [CHR 0xE2, CHR 0x80, char_of n]) ([128..<139] @ [168, 169, 175 :: nat])
     @ [[CHR 0xE2, CHR 0x81, CHR 0x9F], [CHR 0xE3, CHR 0x80, CHR 0x80]]"

text \<open>The number of bytes of the encoding that \<open>s\<close> begins with, 0 when it begins with none.\<close>

definition leading :: "string list \<Rightarrow> string \<Rightarrow> nat" where
  "leading encodings s =
     (case find (startswith s) encodings of None \<Rightarrow> 0 | Some e \<Rightarrow> length e)"

function strip_leading :: "string list \<Rightarrow> string \<Rightarrow> string" where
  "strip_leading encodings s =
     (if s = [] \<or> leading encodings s = 0 then s
      else strip_leading encodings (drop (leading encodings s) s))"
  by pat_completeness auto
termination
  by (relation "measure (\<lambda>(encodings, s). length s)") auto

declare strip_leading.simps [simp del]

definition py_strip :: "string \<Rightarrow> string" where
  "py_strip s =
     rev (strip_leading (map rev white_space) (rev (strip_leading white_space s)))"

text \<open>
  \<^verbatim>\<open>.lower()\<close> before the comparison with \<^verbatim>\<open>"y"\<close>: the ASCII capitals are
  lowered. Of all characters \<^verbatim>\<open>str.lower\<close> sends only \<^verbatim>\<open>Y\<close> and \<^verbatim>\<open>y\<close> to
  \<^verbatim>\<open>y\<close>, so the comparison is decided as Python decides it.
\<close>

definition lower_char :: "char \<Rightarrow> char" where
  "lower_char c =
     (let n = (of_char c :: nat) in if 65 \<le> n \<and> n \<le> 90 then char_of (n + 32) else c)"

definition py_lower :: "string \<Rightarrow> string" where
  "py_lower s = map lower_char s"

subsection \<open>Errors\<close>

datatype pyerr =
    KeyError | AttributeError | ValueError | AxisError | TypeError | IndexError
  | EOFError | FileNotFoundError | NotADirectoryError | IsADirectoryError | RuntimeError

definition bindE :: "pyerr + 'a \<Rightarrow> ('a \<Rightarrow> pyerr + 'b) \<Rightarrow> pyerr + 'b" where
  "bindE r f = (case r of Inl e \<Rightarrow> Inl e | Inr x \<Rightarrow> f x)"

text \<open>A list comprehension whose body may raise stops at the first exception.\<close>

fun mapE :: "('a \<Rightarrow> pyerr + 'b) \<Rightarrow> 'a list \<Rightarrow> pyerr + 'b list" where
  "mapE f [] = Inr []"
| "mapE f (x # xs) =
     (case f x of Inl e \<Rightarrow> Inl e
      | Inr y \<Rightarrow> (case mapE f xs of Inl e \<Rightarrow> Inl e | Inr ys \<Rightarrow> Inr (y # ys)))"

subsection \<open>The numpy operations the script calls\<close>

text \<open>
  An array is its shape and its elements in row-major order. Elements are values of a
  linear order; a NaN, which \<^verbatim>\<open>argmax\<close> would treat as the largest value, is outside the
  element type.
\<close>

record 'a ndarray =
  shape :: "nat list"
  elems :: "'a list"

definition array_size :: "'a ndarray \<Rightarrow> nat" where
  "array_size a = prod_list (shape a)"

definition scalar :: "'a \<Rightarrow> 'a ndarray" where
  "scalar x = \<lparr>shape = [], elems = [x]\<rparr>"

text \<open>
  \<^verbatim>\<open>np.array(xs)\<close> on a list of arrays stacks them along a new first axis; the empty
  list gives the one-dimensional array of shape \<open>(0,)\<close>; arrays of different shapes are
  refused.
\<close>

definition np_array :: "'a ndarray list \<Rightarrow> pyerr + 'a ndarray" where
  "np_array xs =
     (case xs of
        [] \<Rightarrow> Inr \<lparr>shape = [0], elems = []\<rparr>
      | x # _ \<Rightarrow>
          if \<forall>y \<in> set xs. shape y = shape x
          then Inr \<lparr>shape = length xs # shape x, elems = concat (map elems xs)\<rparr>
          else Inl ValueError)"

text \<open>
  \<^verbatim>\<open>np.concatenate(xs)\<close> joins along the existing first axis: it needs at least one
  array, no zero-dimensional array, and equal shapes after the first axis.
\<close>

definition np_concatenate :: "'a ndarray list \<Rightarrow> pyerr + 'a ndarray" where
  "np_concatenate xs =
     (case xs of
        [] \<Rightarrow> Inl ValueError
      | x # _ \<Rightarrow>
          if \<forall>y \<in> set xs. shape y \<noteq> [] \<and> tl (shape y) = tl (shape x)
          then Inr \<lparr>shape = sum_list (map (\<lambda>y. hd (shape y)) xs) # tl (shape x),
                    elems = concat (map elems xs)\<rparr>
          else Inl ValueError)"

text \<open>
  \<^verbatim>\<open>a.reshape(1, 10000)\<close> keeps the elements and needs their number to be 10000.
\<close>

definition reshape_1_10000 :: "'a ndarray \<Rightarrow> pyerr + 'a ndarray" where
  "reshape_1_10000 a =
     (if array_size a = 10000 then Inr \<lparr>shape = [1, 10000], elems = elems a\<rparr>
      else Inl ValueError)"

text \<open>The index of the first occurrence of the largest element of a non-empty list.\<close>

fun argmax_from :: "nat \<Rightarrow> 'a::linorder \<Rightarrow> nat \<Rightarrow> 'a list \<Rightarrow> nat" where
  "argmax_from best_i best i [] = best_i"
| "argmax_from best_i best i (x # xs) =
     (if best < x then argmax_from i x (Suc i) xs else argmax_from best_i best (Suc i) xs)"

definition argmax_list :: "'a::linorder list \<Rightarrow> nat" where
  "argmax_list xs = (case xs of [] \<Rightarrow> 0 | x # rest \<Rightarrow> argmax_from 0 x 1 rest)"

text \<open>
  \<^verbatim>\<open>a.argmax(axis=1)\<close>: an array of fewer than two dimensions has no axis 1; an axis 1
  of length zero has no largest element. Otherwise the result drops axis 1: for a shape
  \<open>n # c # rest\<close> with \<open>t\<close> the product of \<open>rest\<close>, the entry at \<open>(i, k)\<close> is the argmax
  over \<open>j < c\<close> of the element at offset \<open>(i * c + j) * t + k\<close>.
\<close>

definition argmax_axis1 :: "'a::linorder ndarray \<Rightarrow> pyerr + nat ndarray" where
  "argmax_axis1 a =
     (case shape a of
        n # c # rest \<Rightarrow>
          if c = 0 then Inl ValueError
          else (let t = prod_list rest in
            Inr \<lparr>shape = n # rest,
                 elems = concat (map (\<lambda>i. map (\<lambda>k.
                           argmax_list (map (\<lambda>j. elems a ! ((i * c + j) * t + k)) [0..<c]))
                           [0..<t]) [0..<n])\<rparr>)
      | _ \<Rightarrow> Inl AxisError)"

text \<open>
  Iterating an array yields its sub-arrays along the first axis; those of a
  one-dimensional array are scalars. A zero-dimensional array cannot be iterated.
\<close>

fun chunks :: "nat \<Rightarrow> nat \<Rightarrow> 'a list \<Rightarrow> 'a list list" where
  "chunks 0 t xs = []"
| "chunks (Suc n) t xs = take t xs # chunks n t (drop t xs)"

definition iter_array :: "'a ndarray \<Rightarrow> pyerr + 'a ndarray list" where
  "iter_array a =
     (case shape a of
        [] \<Rightarrow> Inl TypeError
      | n # rest \<Rightarrow>
          Inr (map (\<lambda>ch. \<lparr>shape = rest, elems = ch\<rparr>) (chunks n (prod_list rest) (elems a))))"

subsection \<open>Data\<close>

text \<open>
  A resolved path is the list of its components below the root, as pathlib holds it and
  compares it (component by component, each component as a string).
\<close>

type_synonym fspath = "string list"

text \<open>\<^verbatim>\<open>str(p)\<close> of an absolute path.\<close>

definition path_str :: "fspath \<Rightarrow> string" where
  "path_str p = (if p = [] then ''/'' else concat (map (\<lambda>c. ''/'' @ c) p))"

text \<open>
  Of a \<^verbatim>\<open>MorphologyData\<close> sample the script reads \<^verbatim>\<open>str(sample.path)\<close> and
  \<^verbatim>\<open>sample.image\<close>; the field \<open>path\<close> holds the string form.
\<close>

record 'a sample =
  path :: string
  image :: "'a ndarray"

text \<open>
  Of a \<^verbatim>\<open>MorphologyDataset\<close> the script reads \<^verbatim>\<open>data\<close>, \<^verbatim>\<open>y_to_label\<close>, its length
  and its iteration. The script builds the dataset from the samples alone, with no
  transform, so iterating it yields the samples of \<open>data\<close> and its length is theirs.
\<close>

record 'a dataset =
  data :: "'a sample list"
  y_to_label :: "(nat \<times> string) list"

text \<open>
  The checkpoint dictionary: \<^verbatim>\<open>"model_class"\<close>, \<^verbatim>\<open>"model_params"\<close> and
  \<^verbatim>\<open>["all"]["model"]\<close> are read without a test; \<^verbatim>\<open>"metadata"\<close> is tested for, and
  its \<^verbatim>\<open>"timestamp"\<close> is then read without a test (\<open>Some None\<close>: metadata without one).
\<close>

record ('p, 's) checkpoint =
  model_class :: string
  metadata :: "string option option"
  model_params :: 'p
  all_model :: 's

datatype json = JString string | JObject "(string \<times> json) list"

datatype node = Dir | File json

datatype routine = GNN | CNN | XGB

datatype msg =
    FeaturesDirMsg fspath | OutputFileMsg fspath | CheckpointMsg fspath
  | OverwritePrompt fspath | Stopping | Proceeding
  | LoadingCheckpoint | ModelMsg string | CreatedOn string
  | LoadingData | DatasetLength nat
  | ComputingPredictions | ModelNotRecognized string
  | ExportingResults | Done

text \<open>
  What a run does that can be observed: text on the terminal, the two kinds of loading,
  the call of a prediction routine with the dataset it is given, and a file written.
\<close>

datatype 'a event =
    Secho msg
  | TorchLoad fspath
  | DataLoad fspath
  | Dispatch routine "'a dataset"
  | FileWrite fspath

text \<open>
  The world: the file system as a table from paths to nodes (its order is the order in
  which the system lists directory entries), the lines waiting on the terminal input, and
  the actions so far.
\<close>

record 'a world =
  fs :: "(fspath \<times> node) list"
  stdin :: "string list"
  trace :: "'a event list"

text \<open>
  The collaborators outside the source file. \<open>resolve\<close> is \<^verbatim>\<open>pathlib.Path(s).resolve()\<close>,
  \<open>joinpath\<close> is pathlib's \<^verbatim>\<open>/\<close> with a string on the right, \<open>now\<close> is the formatted
  time stamp. \<open>models_getattr\<close> is \<^verbatim>\<open>getattr(morphoclass.models, name)\<close>, \<open>construct\<close>
  is \<^verbatim>\<open>model_cls(**params)\<close>; \<open>load_state_dict\<close> and \<open>eval_mode\<close> return the model they
  have changed. A forward pass is a function of the model and its input:
  \<open>forward_sample\<close> is \<^verbatim>\<open>model(sample)\<close>, \<open>forward_image\<close> is
  \<^verbatim>\<open>model(sample.image).detach().numpy()\<close>, \<open>xgb_predict\<close> is \<^verbatim>\<open>model.predict(x)\<close>.
\<close>

record ('a, 'c, 'p, 'm, 's) env =
  resolve :: "string \<Rightarrow> fspath"
  joinpath :: "fspath \<Rightarrow> string \<Rightarrow> fspath"
  now :: string
  torch_load :: "fspath \<Rightarrow> pyerr + ('p, 's) checkpoint"
  MorphologyData_load :: "fspath \<Rightarrow> pyerr + 'a sample"
  MorphologyDataset :: "'a sample list \<Rightarrow> pyerr + 'a dataset"
  models_getattr :: "string \<Rightarrow> 'c option"
  construct :: "'c \<Rightarrow> 'p \<Rightarrow> pyerr + 'm"
  load_state_dict :: "'m \<Rightarrow> 's \<Rightarrow> pyerr + 'm"
  eval_mode :: "'m \<Rightarrow> 'm"
  forward_sample :: "'m \<Rightarrow> 'a sample \<Rightarrow> pyerr + 'a ndarray"
  forward_image :: "'m \<Rightarrow> 'a ndarray \<Rightarrow> pyerr + 'a ndarray"
  xgb_predict :: "'s \<Rightarrow> 'a ndarray \<Rightarrow> pyerr + nat list"

subsection \<open>Effects\<close>

definition emit :: "'a event \<Rightarrow> 'a world \<Rightarrow> 'a world" where
  "emit e w = w\<lparr>trace := trace w @ [e]\<rparr>"

definition secho :: "msg \<Rightarrow> 'a world \<Rightarrow> 'a world" where
  "secho m w = emit (Secho m) w"

definition path_exists :: "'a world \<Rightarrow> fspath \<Rightarrow> bool" where
  "path_exists w p = (map_of (fs w) p \<noteq> None)"

text \<open>
  \<^verbatim>\<open>features_dir.glob("*.features")\<close>: the entries directly below the directory whose
  name ends in \<^verbatim>\<open>.features\<close> (the star of pathlib also matches the empty string and a
  leading dot), in the system's order.
\<close>

definition glob_features :: "'a world \<Rightarrow> fspath \<Rightarrow> fspath list" where
  "glob_features w d =
     filter (\<lambda>p. p \<noteq> [] \<and> butlast p = d \<and> endswith (last p) ''.features'') (map fst (fs w))"

text \<open>
  \<^verbatim>\<open>open(p, "w")\<close>: the system walks the directories above \<open>p\<close> from the root, which
  is a directory. The first one that is not a directory ends the call: a regular file gives
  \<^verbatim>\<open>NotADirectoryError\<close>, a missing entry \<^verbatim>\<open>FileNotFoundError\<close>. Then \<open>p\<close> itself must
  not be a directory. The opened file then holds what \<^verbatim>\<open>json.dump\<close> writes. Access rights
  are not modelled.
\<close>

definition ancestors :: "fspath \<Rightarrow> fspath list" where
  "ancestors p = map (\<lambda>n. take n p) [1..<length p]"

definition open_w :: "fspath \<Rightarrow> 'a world \<Rightarrow> pyerr + unit" where
  "open_w p w =
     (case find (\<lambda>q. map_of (fs w) q \<noteq> Some Dir) (ancestors p) of
        Some q \<Rightarrow>
          (case map_of (fs w) q of
             Some (File _) \<Rightarrow> Inl NotADirectoryError
           | _ \<Rightarrow> Inl FileNotFoundError)
      | None \<Rightarrow>
          if p = [] \<or> map_of (fs w) p = Some Dir then Inl IsADirectoryError else Inr ())"

definition write_file :: "fspath \<Rightarrow> json \<Rightarrow> 'a world \<Rightarrow> 'a world" where
  "write_file p j w = emit (FileWrite p) (w\<lparr>fs := AList.update p (File j) (fs w)\<rparr>)"

subsection \<open>The three prediction routines\<close>

definition build_model ::
  "('a, 'c, 'p, 'm, 's) env \<Rightarrow> ('p, 's) checkpoint \<Rightarrow> pyerr + 'm" where
  "build_model env checkpoint =
     (case models_getattr env (rpartition_dot_2 (model_class checkpoint)) of
        None \<Rightarrow> Inl AttributeError
      | Some model_cls \<Rightarrow>
          bindE (construct env model_cls (model_params checkpoint)) (\<lambda>model.
            load_state_dict env model (all_model checkpoint)))"

definition predict_gnn ::
  "('a, 'c, 'p, 'm, 's) env \<Rightarrow> 'a dataset \<Rightarrow> ('p, 's) checkpoint \<Rightarrow> pyerr + 'a ndarray" where
  "predict_gnn env dataset checkpoint =
     bindE (build_model env checkpoint) (\<lambda>model.
       bindE (mapE (forward_sample env (eval_mode env model)) (data dataset)) np_array)"

definition predict_cnn ::
  "('a, 'c, 'p, 'm, 's) env \<Rightarrow> 'a dataset \<Rightarrow> ('p, 's) checkpoint \<Rightarrow> pyerr + 'a ndarray" where
  "predict_cnn env dataset checkpoint =
     bindE (build_model env checkpoint) (\<lambda>model.
       bindE (mapE (\<lambda>sample. forward_image env model (image sample)) (data dataset))
         (\<lambda>logits. if length logits > 0 then np_concatenate logits else np_array logits))"

definition first_elem :: "'b list \<Rightarrow> pyerr + 'b" where
  "first_elem ys = (case ys of [] \<Rightarrow> Inl IndexError | y # _ \<Rightarrow> Inr y)"

definition xgb_one :: "('a, 'c, 'p, 'm, 's) env \<Rightarrow> 's \<Rightarrow> 'a sample \<Rightarrow> pyerr + nat" where
  "xgb_one env model sample =
     bindE (reshape_1_10000 (image sample)) (\<lambda>x. bindE (xgb_predict env model x) first_elem)"

definition predict_xgb ::
  "('a, 'c, 'p, 'm, 's) env \<Rightarrow> 'a dataset \<Rightarrow> ('p, 's) checkpoint \<Rightarrow> pyerr + nat list" where
  "predict_xgb env dataset checkpoint =
     (let model = all_model checkpoint in mapE (xgb_one env model) (data dataset))"

subsection \<open>The command handler\<close>

text \<open>
  \<^verbatim>\<open>predict\<close> is one function in the source; here each of its stages is a definition,
  in the order of the source, and \<open>predict\<close> chains them. A stage returns the exception it
  raised or its value, and the world as it left it.
\<close>

text \<open>Lines 97 to 105: the value says whether the run goes on.\<close>

definition confirm_overwrite :: "fspath \<Rightarrow> 'a world \<Rightarrow> (pyerr + bool) \<times> 'a world" where
  "confirm_overwrite results_path w =
     (if path_exists w results_path then
        (let w1 = secho (OverwritePrompt results_path) w in
         case stdin w1 of
           [] \<Rightarrow> (Inl EOFError, w1)
         | response # rest \<Rightarrow>
             (let w2 = w1\<lparr>stdin := rest\<rparr> in
              if py_lower (py_strip response) \<noteq> ''y'' then (Inr False, secho Stopping w2)
              else (Inr True, secho Proceeding w2)))
      else (Inr True, w))"

text \<open>Lines 107 to 118.\<close>

definition load_checkpoint ::
  "('a, 'c, 'p, 'm, 's) env \<Rightarrow> fspath \<Rightarrow> 'a world \<Rightarrow> (pyerr + ('p, 's) checkpoint) \<times> 'a world"
  where
  "load_checkpoint env checkpoint_file w =
     (let w1 = emit (TorchLoad checkpoint_file) (secho LoadingCheckpoint w) in
      case torch_load env checkpoint_file of
        Inl e \<Rightarrow> (Inl e, w1)
      | Inr checkpoint \<Rightarrow>
          (let w2 = secho (ModelMsg (model_class checkpoint)) w1 in
           case metadata checkpoint of
             None \<Rightarrow> (Inr checkpoint, w2)
           | Some None \<Rightarrow> (Inl KeyError, w2)
           | Some (Some timestamp) \<Rightarrow> (Inr checkpoint, secho (CreatedOn timestamp) w2)))"

text \<open>Lines 121 to 123: the loop that loads one sample per path.\<close>

fun load_all ::
  "('a, 'c, 'p, 'm, 's) env \<Rightarrow> fspath list \<Rightarrow> 'a world \<Rightarrow> (pyerr + 'a sample list) \<times> 'a world"
  where
  "load_all env [] w = (Inr [], w)"
| "load_all env (p # ps) w =
     (let w1 = emit (DataLoad p) w in
      case MorphologyData_load env p of
        Inl e \<Rightarrow> (Inl e, w1)
      | Inr s \<Rightarrow>
          (case load_all env ps w1 of
             (Inl e, w2) \<Rightarrow> (Inl e, w2)
           | (Inr ss, w2) \<Rightarrow> (Inr (s # ss), w2)))"

text \<open>Lines 120 to 125.\<close>

definition load_dataset ::
  "('a, 'c, 'p, 'm, 's) env \<Rightarrow> fspath \<Rightarrow> 'a world \<Rightarrow> (pyerr + 'a dataset) \<times> 'a world" where
  "load_dataset env features_dir w =
     (let w1 = secho LoadingData w in
      case load_all env (sort (glob_features w1 features_dir)) w1 of
        (Inl e, w2) \<Rightarrow> (Inl e, w2)
      | (Inr samples, w2) \<Rightarrow>
          (case MorphologyDataset env samples of
             Inl e \<Rightarrow> (Inl e, w2)
           | Inr dataset \<Rightarrow> (Inr dataset, secho (DatasetLength (length (data dataset))) w2)))"

text \<open>
  The value of \<^verbatim>\<open>predictions\<close>: the array that \<^verbatim>\<open>argmax\<close> returns, or the Python list
  that \<^verbatim>\<open>predict_xgb\<close> returns.
\<close>

datatype predictions = PArray "nat ndarray" | PList "nat list"

text \<open>Lines 127 to 143: the value \<open>None\<close> is the return of the last branch.\<close>

definition compute_predictions ::
  "('a::linorder, 'c, 'p, 'm, 's) env \<Rightarrow> 'a dataset \<Rightarrow> ('p, 's) checkpoint \<Rightarrow> 'a world
     \<Rightarrow> (pyerr + predictions option) \<times> 'a world" where
  "compute_predictions env dataset checkpoint w =
     (let w1 = secho ComputingPredictions w; mc = model_class checkpoint in
      if py_in ''ManNet'' mc then
        (let w2 = emit (Dispatch GNN dataset) w1 in
         case bindE (predict_gnn env dataset checkpoint) argmax_axis1 of
           Inl e \<Rightarrow> (Inl e, w2)
         | Inr p \<Rightarrow> (Inr (Some (PArray p)), w2))
      else if py_in ''CNN'' mc then
        (let w2 = emit (Dispatch CNN dataset) w1 in
         case bindE (predict_cnn env dataset checkpoint) argmax_axis1 of
           Inl e \<Rightarrow> (Inl e, w2)
         | Inr p \<Rightarrow> (Inr (Some (PArray p)), w2))
      else if py_in ''XGB'' mc then
        (let w2 = emit (Dispatch XGB dataset) w1 in
         case predict_xgb env dataset checkpoint of
           Inl e \<Rightarrow> (Inl e, w2)
         | Inr ps \<Rightarrow> (Inr (Some (PList ps)), w2))
      else (Inr None, secho (ModelNotRecognized mc) w1))"

text \<open>What \<^verbatim>\<open>zip\<close> reads from \<^verbatim>\<open>predictions\<close>, one Python object per step.\<close>

definition iter_predictions :: "predictions \<Rightarrow> pyerr + nat ndarray list" where
  "iter_predictions ps = (case ps of PArray a \<Rightarrow> iter_array a | PList ys \<Rightarrow> Inr (map scalar ys))"

text \<open>
  \<^verbatim>\<open>dataset.y_to_label[sample_pred]\<close>: a numpy integer scalar is a key like the integer
  it holds; an array is not hashable.
\<close>

definition lookup_label :: "(nat \<times> string) list \<Rightarrow> nat ndarray \<Rightarrow> pyerr + string" where
  "lookup_label table sample_pred =
     (if shape sample_pred \<noteq> [] then Inl TypeError
      else case elems sample_pred of
             [k] \<Rightarrow> (case map_of table k of None \<Rightarrow> Inl KeyError | Some l \<Rightarrow> Inr l)
           | _ \<Rightarrow> Inl TypeError)"

text \<open>
  Lines 146 to 150: the dictionary \<^verbatim>\<open>prediction_labels\<close> is a table in insertion order;
  storing under a key it has replaces the value.
\<close>

fun label_loop ::
  "'a dataset \<Rightarrow> ('a sample \<times> nat ndarray) list \<Rightarrow> (string \<times> string) list
     \<Rightarrow> pyerr + (string \<times> string) list" where
  "label_loop dataset [] prediction_labels = Inr prediction_labels"
| "label_loop dataset ((sample, sample_pred) # rest) prediction_labels =
     (case lookup_label (y_to_label dataset) sample_pred of
        Inl e \<Rightarrow> Inl e
      | Inr pred_label \<Rightarrow>
          label_loop dataset rest (AList.update (path sample) pred_label prediction_labels))"

definition report :: "(string \<times> string) list \<Rightarrow> fspath \<Rightarrow> string \<Rightarrow> json" where
  "report prediction_labels checkpoint_file mc =
     JObject [(''predictions'', JObject (map (\<lambda>(k, v). (k, JString v)) prediction_labels)),
              (''checkpoint_path'', JString (path_str checkpoint_file)),
              (''model'', JString mc)]"

text \<open>Lines 145 to 159.\<close>

definition export_results ::
  "'a dataset \<Rightarrow> predictions \<Rightarrow> fspath \<Rightarrow> string \<Rightarrow> fspath \<Rightarrow> 'a world
     \<Rightarrow> (pyerr + unit) \<times> 'a world" where
  "export_results dataset preds checkpoint_file mc results_path w =
     (let w1 = secho ExportingResults w in
      case bindE (iter_predictions preds) (\<lambda>items.
             label_loop dataset (zip (data dataset) items) []) of
        Inl e \<Rightarrow> (Inl e, w1)
      | Inr prediction_labels \<Rightarrow>
          (case open_w results_path w1 of
             Inl e \<Rightarrow> (Inl e, w1)
           | Inr _ \<Rightarrow>
               (Inr (),
                secho Done
                  (write_file results_path (report prediction_labels checkpoint_file mc) w1))))"

text \<open>Lines 107 to 159: the run after the question about overwriting.\<close>

definition predict_body ::
  "('a::linorder, 'c, 'p, 'm, 's) env \<Rightarrow> fspath \<Rightarrow> fspath \<Rightarrow> fspath \<Rightarrow> 'a world
     \<Rightarrow> (pyerr + unit) \<times> 'a world" where
  "predict_body env features_dir checkpoint_file results_path w =
     (case load_checkpoint env checkpoint_file w of
        (Inl e, w1) \<Rightarrow> (Inl e, w1)
      | (Inr checkpoint, w1) \<Rightarrow>
          (case load_dataset env features_dir w1 of
             (Inl e, w2) \<Rightarrow> (Inl e, w2)
           | (Inr dataset, w2) \<Rightarrow>
               (case compute_predictions env dataset checkpoint w2 of
                  (Inl e, w3) \<Rightarrow> (Inl e, w3)
                | (Inr None, w3) \<Rightarrow> (Inr (), w3)
                | (Inr (Some preds), w3) \<Rightarrow>
                    export_results dataset preds checkpoint_file (model_class checkpoint)
                      results_path w3)))"

text \<open>Lines 87 to 93.\<close>

definition results_path_of ::
  "('a, 'c, 'p, 'm, 's) env \<Rightarrow> string \<Rightarrow> string option \<Rightarrow> fspath" where
  "results_path_of env output_dir results_name =
     joinpath env (resolve env output_dir)
       ((case results_name of None \<Rightarrow> ''results_'' @ now env | Some n \<Rightarrow> n) @ ''.json'')"

text \<open>Lines 82 to 159.\<close>

definition predict ::
  "('a::linorder, 'c, 'p, 'm, 's) env \<Rightarrow> string \<Rightarrow> string \<Rightarrow> string \<Rightarrow> string option
     \<Rightarrow> 'a world \<Rightarrow> (pyerr + unit) \<times> 'a world" where
  "predict env features_dir checkpoint_file output_dir results_name w =
     (let features_dir' = resolve env features_dir;
          checkpoint_file' = resolve env checkpoint_file;
          results_path = results_path_of env output_dir results_name;
          w1 = secho (CheckpointMsg checkpoint_file')
                 (secho (OutputFileMsg results_path)
                   (secho (FeaturesDirMsg features_dir') w))
      in case confirm_overwrite results_path w1 of
           (Inl e, w2) \<Rightarrow> (Inl e, w2)
         | (Inr False, w2) \<Rightarrow> (Inr (), w2)
         | (Inr True, w2) \<Rightarrow> predict_body env features_dir' checkpoint_file' results_path w2)"

subsection \<open>Observing a run\<close>

text \<open>The actions a run has added to the world it started from.\<close>

definition new_events :: "'a world \<Rightarrow> 'a world \<Rightarrow> 'a event list" where
  "new_events w w' = drop (length (trace w)) (trace w')"

definition torch_loads :: "'a event list \<Rightarrow> fspath list" where
  "torch_loads evs = concat (map (\<lambda>e. case e of TorchLoad p \<Rightarrow> [p] | _ \<Rightarrow> []) evs)"

definition data_loads :: "'a event list \<Rightarrow> fspath list" where
  "data_loads evs = concat (map (\<lambda>e. case e of DataLoad p \<Rightarrow> [p] | _ \<Rightarrow> []) evs)"

definition dispatches :: "'a event list \<Rightarrow> (routine \<times> 'a dataset) list" where
  "dispatches evs = concat (map (\<lambda>e. case e of Dispatch r d \<Rightarrow> [(r, d)] | _ \<Rightarrow> []) evs)"

definition file_writes :: "'a event list \<Rightarrow> fspath list" where
  "file_writes evs = concat (map (\<lambda>e. case e of FileWrite p \<Rightarrow> [p] | _ \<Rightarrow> []) evs)"

definition messages :: "'a event list \<Rightarrow> msg list" where
  "messages evs = concat (map (\<lambda>e. case e of Secho m \<Rightarrow> [m] | _ \<Rightarrow> []) evs)"

subsection \<open>A concrete installation\<close>

text \<open>
  A small environment and file system on which the definitions can be run: four
  checkpoints, one per model family and one of an unknown family, a features directory
  with two feature files and one other file, an empty directory, and an output directory
  that holds an earlier report. The samples it loads carry a small image; \<open>demo_sample\<close>
  is a sample with an image of 10000 elements.
\<close>

definition demo_image :: "int ndarray" where
  "demo_image = \<lparr>shape = [1, 100, 100], elems = replicate 10000 0\<rparr>"

definition demo_sample :: "string \<Rightarrow> int sample" where
  "demo_sample name = \<lparr>path = ''/morph/'' @ name, image = demo_image\<rparr>"

definition loaded_sample :: "string \<Rightarrow> int sample" where
  "loaded_sample name =
     \<lparr>path = ''/morph/'' @ name, image = \<lparr>shape = [1, 2, 2], elems = [0, 0, 0, 0]\<rparr>\<rparr>"

definition demo_checkpoint :: "string \<Rightarrow> (nat, nat) checkpoint" where
  "demo_checkpoint mc =
     \<lparr>model_class = mc, metadata = None, model_params = 7, all_model = 42\<rparr>"

definition demo_labels :: "(nat \<times> string) list" where
  "demo_labels = [(0, ''IPC''), (1, ''TPC'')]"

definition demo_env :: "(int, nat, nat, nat \<times> nat \<times> nat, nat) env" where
  "demo_env =
     \<lparr>resolve = (\<lambda>s. [''work'', s]),
      joinpath = (\<lambda>d n. d @ [n]),
      now = ''2022-01-01_00-00-00'',
      torch_load = (\<lambda>p.
        if p = [''work'', ''gnn.ckpt'']
          then Inr (demo_checkpoint ''morphoclass.models.man_net.ManNet'')
        else if p = [''work'', ''cnn.ckpt'']
          then Inr (demo_checkpoint ''morphoclass.models.cnnet.CNNet'')
        else if p = [''work'', ''xgb.ckpt'']
          then Inr (demo_checkpoint ''xgboost.sklearn.XGBClassifier'')
        else if p = [''work'', ''tree.ckpt'']
          then Inr (demo_checkpoint ''sklearn.tree.DecisionTreeClassifier'')
        else Inl FileNotFoundError),
      MorphologyData_load = (\<lambda>p. Inr (loaded_sample (last p))),
      MorphologyDataset = (\<lambda>samples. Inr \<lparr>data = samples, y_to_label = demo_labels\<rparr>),
      models_getattr =
        (\<lambda>n. if n = ''ManNet'' then Some 0 else if n = ''CNNet'' then Some 1 else None),
      construct = (\<lambda>c p. Inr (c, p, 0)),
      load_state_dict = (\<lambda>m s. Inr (fst m, fst (snd m), s)),
      eval_mode = (\<lambda>m. m),
      forward_sample = (\<lambda>m s. Inr \<lparr>shape = [2], elems = [0, 1]\<rparr>),
      forward_image = (\<lambda>m x. Inr \<lparr>shape = [1, 2], elems = [3, 1]\<rparr>),
      xgb_predict = (\<lambda>s x. Inr [1])\<rparr>"

text \<open>
  A variant with three feature files. The first two were extracted from the same
  morphology, so that both samples carry the same path; the third holds an empty batch of
  images. The network returns one row of logits for every image of a batch, here the rows
  of the batch itself.
\<close>

definition twin_env :: "(int, nat, nat, nat \<times> nat \<times> nat, nat) env" where
  "twin_env =
     demo_env
       \<lparr>MorphologyData_load := (\<lambda>p.
          if last p = ''a.features''
            then Inr \<lparr>path = ''/morph/cell'', image = \<lparr>shape = [1, 2], elems = [1, 0]\<rparr>\<rparr>
          else if last p = ''b.features''
            then Inr \<lparr>path = ''/morph/cell'', image = \<lparr>shape = [1, 2], elems = [0, 1]\<rparr>\<rparr>
          else Inr \<lparr>path = ''/morph/other'', image = \<lparr>shape = [0, 2], elems = []\<rparr>\<rparr>),
        forward_image := (\<lambda>m x. Inr x)\<rparr>"

definition twin_world :: "int world" where
  "twin_world =
     \<lparr>fs = [([], Dir),
            ([''work''], Dir),
            ([''work'', ''feat''], Dir),
            ([''work'', ''feat'', ''c.features''], File (JString ''c'')),
            ([''work'', ''feat'', ''a.features''], File (JString ''a'')),
            ([''work'', ''feat'', ''b.features''], File (JString ''b'')),
            ([''work'', ''out''], Dir)],
      stdin = [], trace = []\<rparr>"

definition demo_fs :: "(fspath \<times> node) list" where
  "demo_fs =
     [([], Dir),
      ([''work''], Dir),
      ([''work'', ''feat''], Dir),
      ([''work'', ''feat'', ''b.features''], File (JString ''b'')),
      ([''work'', ''feat'', ''notes.txt''], File (JString ''n'')),
      ([''work'', ''feat'', ''a.features''], File (JString ''a'')),
      ([''work'', ''empty''], Dir),
      ([''work'', ''out''], Dir),
      ([''work'', ''out'', ''old.json''], File (JString ''old''))]"

definition demo_world :: "string list \<Rightarrow> int world" where
  "demo_world keyboard = \<lparr>fs = demo_fs, stdin = keyboard, trace = []\<rparr>"

text \<open>
  An answer to the question about overwriting, typed with a no-break space (U+00A0) before
  the letter and an ideographic space (U+3000) after it.
\<close>

definition demo_yes :: string where
  "demo_yes = [CHR 0xC2, CHR 0xA0, CHR ''Y'', CHR 0xE3, CHR 0x80, CHR 0x80]"

section \<open>Properties\<close>

subsection \<open>Auxiliary facts\<close>

lemma bindE_simps [simp]:
  "bindE (Inl e) f = Inl e"
  "bindE (Inr x) f = f x"
  by (simp_all add: bindE_def)

lemma bindE_eq_Inr: "bindE r f = Inr y \<longleftrightarrow> (\<exists>x. r = Inr x \<and> f x = Inr y)"
  by (cases r) simp_all

lemma after_last_dot_split:
  "CHR ''.'' \<notin> set acc \<Longrightarrow>
   \<exists>pre. acc @ s = pre @ after_last_dot acc s \<and> CHR ''.'' \<notin> set (after_last_dot acc s)
        \<and> (pre = [] \<or> last pre = CHR ''.'')"
proof (induction s arbitrary: acc)
  case Nil
  then show ?case by simp
next
  case (Cons c cs)
  show ?case
  proof (cases "c = CHR ''.''")
    case True
    from Cons.IH [of "[]"] obtain pre where
      p: "cs = pre @ after_last_dot [] cs" "CHR ''.'' \<notin> set (after_last_dot [] cs)"
         "pre = [] \<or> last pre = CHR ''.''"
      by auto
    have "acc @ c # cs = (acc @ c # pre) @ after_last_dot acc (c # cs)"
      using True p(1) by simp
    moreover have "last (acc @ c # pre) = CHR ''.''"
      using True p(3) by auto
    ultimately show ?thesis using True p(2) by (intro exI [of _ "acc @ c # pre"]) simp
  next
    case False
    with Cons.prems have "CHR ''.'' \<notin> set (acc @ [c])" by simp
    from Cons.IH [OF this] False show ?thesis by simp
  qed
qed

lemma rpartition_dot_2_split:
  "\<exists>pre. s = pre @ rpartition_dot_2 s \<and> CHR ''.'' \<notin> set (rpartition_dot_2 s)
        \<and> (pre = [] \<or> last pre = CHR ''.'')"
  using after_last_dot_split [of "[]" s] by (simp add: rpartition_dot_2_def)

lemma build_model_Inr:
  "build_model env ck = Inr m \<longleftrightarrow>
     (\<exists>cls m0. models_getattr env (rpartition_dot_2 (model_class ck)) = Some cls
        \<and> construct env cls (model_params ck) = Inr m0
        \<and> load_state_dict env m0 (all_model ck) = Inr m)"
  by (auto simp: build_model_def bindE_eq_Inr split: option.splits)

lemma predict_gnn_Inr:
  "predict_gnn env dataset ck = Inr logits \<longleftrightarrow>
     (\<exists>m. build_model env ck = Inr m
        \<and> bindE (mapE (forward_sample env (eval_mode env m)) (data dataset)) np_array
             = Inr logits)"
  unfolding predict_gnn_def by (cases "build_model env ck") simp_all

lemma predict_cnn_Inr:
  "predict_cnn env dataset ck = Inr logits \<longleftrightarrow>
     (\<exists>m. build_model env ck = Inr m
        \<and> bindE (mapE (\<lambda>sample. forward_image env m (image sample)) (data dataset))
              (\<lambda>ls. if length ls > 0 then np_concatenate ls else np_array ls)
             = Inr logits)"
  unfolding predict_cnn_def by (cases "build_model env ck") simp_all

subsection \<open>The model is rebuilt from the checkpoint\<close>

text \<open>
  Claim C6. Whenever the GNN routine or the CNN routine returns logits, the model it
  applied was obtained from the checkpoint alone: the class is the attribute of
  \<^verbatim>\<open>morphoclass.models\<close> named by \<^verbatim>\<open>model_class.rpartition(".")[2]\<close>, it was
  instantiated with the checkpoint's \<^verbatim>\<open>model_params\<close>, its weights were loaded from
  \<^verbatim>\<open>checkpoint["all"]["model"]\<close>, and the logits are those of that model on the samples
  (the GNN routine switches the model to evaluation mode first). The name used is the
  part of \<^verbatim>\<open>model_class\<close> after its last dot: it contains no dot, and what precedes it is
  empty or ends with a dot.
\<close>

theorem model_rebuilt_from_checkpoint:
  "(predict_gnn env dataset ck = Inr logits \<longrightarrow>
      (\<exists>cls m0 m. models_getattr env (rpartition_dot_2 (model_class ck)) = Some cls
         \<and> construct env cls (model_params ck) = Inr m0
         \<and> load_state_dict env m0 (all_model ck) = Inr m
         \<and> bindE (mapE (forward_sample env (eval_mode env m)) (data dataset)) np_array
             = Inr logits))
   \<and> (predict_cnn env dataset' ck' = Inr logits' \<longrightarrow>
      (\<exists>cls m0 m. models_getattr env (rpartition_dot_2 (model_class ck')) = Some cls
         \<and> construct env cls (model_params ck') = Inr m0
         \<and> load_state_dict env m0 (all_model ck') = Inr m
         \<and> bindE (mapE (\<lambda>sample. forward_image env m (image sample)) (data dataset'))
              (\<lambda>ls. if length ls > 0 then np_concatenate ls else np_array ls)
             = Inr logits'))
   \<and> (\<exists>pre. model_class ck = pre @ rpartition_dot_2 (model_class ck)
         \<and> CHR ''.'' \<notin> set (rpartition_dot_2 (model_class ck))
         \<and> (pre = [] \<or> last pre = CHR ''.''))"
proof (intro conjI impI)
  assume "predict_gnn env dataset ck = Inr logits"
  then obtain m where m: "build_model env ck = Inr m"
    "bindE (mapE (forward_sample env (eval_mode env m)) (data dataset)) np_array = Inr logits"
    unfolding predict_gnn_Inr by blast
  from m(1) obtain cls m0 where
    "models_getattr env (rpartition_dot_2 (model_class ck)) = Some cls"
    "construct env cls (model_params ck) = Inr m0"
    "load_state_dict env m0 (all_model ck) = Inr m"
    unfolding build_model_Inr by blast
  with m(2) show "\<exists>cls m0 m. models_getattr env (rpartition_dot_2 (model_class ck)) = Some cls
         \<and> construct env cls (model_params ck) = Inr m0
         \<and> load_state_dict env m0 (all_model ck) = Inr m
         \<and> bindE (mapE (forward_sample env (eval_mode env m)) (data dataset)) np_array
             = Inr logits"
    by blast
next
  assume "predict_cnn env dataset' ck' = Inr logits'"
  then obtain m where m: "build_model env ck' = Inr m"
    "bindE (mapE (\<lambda>sample. forward_image env m (image sample)) (data dataset'))
              (\<lambda>ls. if length ls > 0 then np_concatenate ls else np_array ls) = Inr logits'"
    unfolding predict_cnn_Inr by blast
  from m(1) obtain cls m0 where
    "models_getattr env (rpartition_dot_2 (model_class ck')) = Some cls"
    "construct env cls (model_params ck') = Inr m0"
    "load_state_dict env m0 (all_model ck') = Inr m"
    unfolding build_model_Inr by blast
  with m(2) show "\<exists>cls m0 m. models_getattr env (rpartition_dot_2 (model_class ck')) = Some cls
         \<and> construct env cls (model_params ck') = Inr m0
         \<and> load_state_dict env m0 (all_model ck') = Inr m
         \<and> bindE (mapE (\<lambda>sample. forward_image env m (image sample)) (data dataset'))
              (\<lambda>ls. if length ls > 0 then np_concatenate ls else np_array ls)
             = Inr logits'"
    by blast
next
  show "\<exists>pre. model_class ck = pre @ rpartition_dot_2 (model_class ck)
         \<and> CHR ''.'' \<notin> set (rpartition_dot_2 (model_class ck))
         \<and> (pre = [] \<or> last pre = CHR ''.'')"
    by (rule rpartition_dot_2_split)
qed

lemma demo_gnn_logits:
  "predict_gnn demo_env \<lparr>data = [demo_sample ''a''], y_to_label = demo_labels\<rparr>
     (demo_checkpoint ''morphoclass.models.man_net.ManNet'')
   = Inr \<lparr>shape = [1, 2], elems = [0, 1]\<rparr>"
  by (simp add: predict_gnn_def build_model_def demo_env_def demo_checkpoint_def
      rpartition_dot_2_def np_array_def)

lemma demo_cnn_logits:
  "predict_cnn demo_env \<lparr>data = [demo_sample ''a''], y_to_label = demo_labels\<rparr>
     (demo_checkpoint ''morphoclass.models.cnnet.CNNet'')
   = Inr \<lparr>shape = [1, 2], elems = [3, 1]\<rparr>"
  by (simp add: predict_cnn_def build_model_def demo_env_def demo_checkpoint_def
      rpartition_dot_2_def np_concatenate_def)

theorem model_rebuilt_from_checkpoint_witness:
  "predict_gnn demo_env \<lparr>data = [demo_sample ''a''], y_to_label = demo_labels\<rparr>
     (demo_checkpoint ''morphoclass.models.man_net.ManNet'')
     = Inr \<lparr>shape = [1, 2], elems = [0, 1]\<rparr>
   \<and> predict_cnn demo_env \<lparr>data = [demo_sample ''a''], y_to_label = demo_labels\<rparr>
     (demo_checkpoint ''morphoclass.models.cnnet.CNNet'')
     = Inr \<lparr>shape = [1, 2], elems = [3, 1]\<rparr>
   \<and> (\<exists>cls m0 m. models_getattr demo_env ''ManNet'' = Some cls
         \<and> construct demo_env cls 7 = Inr m0
         \<and> load_state_dict demo_env m0 42 = Inr m
         \<and> bindE (mapE (forward_sample demo_env (eval_mode demo_env m)) [demo_sample ''a''])
              np_array = Inr \<lparr>shape = [1, 2], elems = [0, 1]\<rparr>)
   \<and> (\<exists>cls m0 m. models_getattr demo_env ''CNNet'' = Some cls
         \<and> construct demo_env cls 7 = Inr m0
         \<and> load_state_dict demo_env m0 42 = Inr m
         \<and> bindE (mapE (\<lambda>sample. forward_image demo_env m (image sample)) [demo_sample ''a''])
              (\<lambda>ls. if length ls > 0 then np_concatenate ls else np_array ls)
             = Inr \<lparr>shape = [1, 2], elems = [3, 1]\<rparr>)"
  using model_rebuilt_from_checkpoint
    [of demo_env "\<lparr>data = [demo_sample ''a''], y_to_label = demo_labels\<rparr>"
        "demo_checkpoint ''morphoclass.models.man_net.ManNet''"
        "\<lparr>shape = [1, 2], elems = [0, 1]\<rparr>"
        "\<lparr>data = [demo_sample ''a''], y_to_label = demo_labels\<rparr>"
        "demo_checkpoint ''morphoclass.models.cnnet.CNNet''"
        "\<lparr>shape = [1, 2], elems = [3, 1]\<rparr>"]
    demo_gnn_logits demo_cnn_logits
  by (simp add: demo_checkpoint_def rpartition_dot_2_def)

subsection \<open>Lists of results\<close>

lemma mapE_eq_Inr: "mapE f xs = Inr ys \<longleftrightarrow> map f xs = map Inr ys"
proof (induction xs arbitrary: ys)
  case Nil
  then show ?case by auto
next
  case (Cons x xs)
  show ?case
  proof (cases "f x")
    case (Inl e)
    then show ?thesis by (cases ys) auto
  next
    case (Inr y)
    then show ?thesis using Cons.IH
      by (cases ys; cases "mapE f xs") auto
  qed
qed

lemma mapE_total: "(\<forall>x \<in> set xs. \<exists>y. f x = Inr y) \<Longrightarrow> \<exists>ys. mapE f xs = Inr ys"
  by (induction xs) auto

lemma mapE_Inr_nth:
  "mapE f xs = Inr ys \<Longrightarrow> length ys = length xs \<and> (\<forall>i < length xs. f (xs ! i) = Inr (ys ! i))"
  unfolding mapE_eq_Inr
  by (metis length_map nth_map)

lemma first_elem_Inr: "first_elem ys = Inr y \<longleftrightarrow> (\<exists>r. ys = y # r)"
  by (cases ys) (auto simp: first_elem_def)

lemma xgb_one_Inr:
  "xgb_one env model s = Inr y \<longleftrightarrow>
     array_size (image s) = 10000
     \<and> (\<exists>ys. xgb_predict env model \<lparr>shape = [1, 10000], elems = elems (image s)\<rparr> = Inr (y # ys))"
  by (auto simp: xgb_one_def reshape_1_10000_def bindE_eq_Inr first_elem_Inr)

subsection \<open>The XGB routine\<close>

text \<open>
  Claim C9. \<^verbatim>\<open>predict_xgb\<close> returns only if every sample's image holds exactly 10000
  elements (each is reshaped to \<open>(1, 10000)\<close>); what it returns has one prediction per
  sample, in the order of the dataset, the \<open>i\<close>-th being the first element of what the
  model predicts for the reshaped image of the \<open>i\<close>-th sample. Conversely, when every
  image holds 10000 elements and the model gives a non-empty prediction for each, the
  routine returns.
\<close>

theorem predict_xgb_needs_10000_and_returns_first_elements:
  "(predict_xgb env dataset ck = Inr ps \<longrightarrow>
      (\<forall>s \<in> set (data dataset). array_size (image s) = 10000)
      \<and> length ps = length (data dataset)
      \<and> (\<forall>i < length (data dataset). \<exists>ys.
            xgb_predict env (all_model ck)
              \<lparr>shape = [1, 10000], elems = elems (image (data dataset ! i))\<rparr> = Inr (ps ! i # ys)))
   \<and> ((\<forall>s \<in> set (data dataset'). array_size (image s) = 10000
          \<and> (\<exists>y ys. xgb_predict env (all_model ck')
                \<lparr>shape = [1, 10000], elems = elems (image s)\<rparr> = Inr (y # ys)))
       \<longrightarrow> (\<exists>ps'. predict_xgb env dataset' ck' = Inr ps'))"
proof (intro conjI impI)
  assume a: "predict_xgb env dataset ck = Inr ps"
  then have m: "mapE (xgb_one env (all_model ck)) (data dataset) = Inr ps"
    by (simp add: predict_xgb_def)
  from mapE_Inr_nth [OF m] have
    len: "length ps = length (data dataset)" and
    nth: "\<forall>i < length (data dataset). xgb_one env (all_model ck) (data dataset ! i) = Inr (ps ! i)"
    by auto
  show "\<forall>s \<in> set (data dataset). array_size (image s) = 10000"
  proof
    fix s assume "s \<in> set (data dataset)"
    then obtain i where "i < length (data dataset)" "data dataset ! i = s"
      by (auto simp: in_set_conv_nth)
    with nth have "xgb_one env (all_model ck) s = Inr (ps ! i)" by auto
    then show "array_size (image s) = 10000" by (simp add: xgb_one_Inr)
  qed
  show "length ps = length (data dataset)" by (rule len)
  show "\<forall>i < length (data dataset). \<exists>ys.
            xgb_predict env (all_model ck)
              \<lparr>shape = [1, 10000], elems = elems (image (data dataset ! i))\<rparr> = Inr (ps ! i # ys)"
    using nth by (simp add: xgb_one_Inr)
next
  assume "\<forall>s \<in> set (data dataset'). array_size (image s) = 10000
          \<and> (\<exists>y ys. xgb_predict env (all_model ck')
                \<lparr>shape = [1, 10000], elems = elems (image s)\<rparr> = Inr (y # ys))"
  then have "\<forall>s \<in> set (data dataset'). \<exists>y. xgb_one env (all_model ck') s = Inr y"
    by (simp add: xgb_one_Inr)
  from mapE_total [OF this] show "\<exists>ps'. predict_xgb env dataset' ck' = Inr ps'"
    by (simp add: predict_xgb_def)
qed

lemma demo_image_size: "array_size demo_image = 10000"
  by (simp add: demo_image_def array_size_def)

lemma demo_xgb_predictions:
  "predict_xgb demo_env \<lparr>data = [demo_sample ''a'', demo_sample ''b''], y_to_label = demo_labels\<rparr>
     (demo_checkpoint ''xgboost.sklearn.XGBClassifier'') = Inr [1, 1]"
  by (simp add: predict_xgb_def xgb_one_def reshape_1_10000_def demo_image_size demo_sample_def
      demo_env_def first_elem_def)

theorem predict_xgb_needs_10000_and_returns_first_elements_witness:
  "predict_xgb demo_env \<lparr>data = [demo_sample ''a'', demo_sample ''b''], y_to_label = demo_labels\<rparr>
     (demo_checkpoint ''xgboost.sklearn.XGBClassifier'') = Inr [1, 1]
   \<and> array_size (image (demo_sample ''a'')) = 10000
   \<and> (\<exists>y ys. xgb_predict demo_env 42
          \<lparr>shape = [1, 10000], elems = elems (image (demo_sample ''a''))\<rparr> = Inr (y # ys))
   \<and> array_size (image (demo_sample ''b'')) = 10000
   \<and> (\<exists>y ys. xgb_predict demo_env 42
          \<lparr>shape = [1, 10000], elems = elems (image (demo_sample ''b''))\<rparr> = Inr (y # ys))
   \<and> length [1, 1 :: nat] = length [demo_sample ''a'', demo_sample ''b'']
   \<and> (\<exists>ys. xgb_predict demo_env 42
              \<lparr>shape = [1, 10000], elems = elems (image (demo_sample ''b''))\<rparr> = Inr ([1, 1] ! 1 # ys))
   \<and> (\<exists>ps'. predict_xgb demo_env
          \<lparr>data = [demo_sample ''a'', demo_sample ''b''], y_to_label = demo_labels\<rparr>
          (demo_checkpoint ''xgboost.sklearn.XGBClassifier'') = Inr ps')"
  using predict_xgb_needs_10000_and_returns_first_elements
    [of demo_env "\<lparr>data = [demo_sample ''a'', demo_sample ''b''], y_to_label = demo_labels\<rparr>"
        "demo_checkpoint ''xgboost.sklearn.XGBClassifier''" "[1, 1]"
        "\<lparr>data = [demo_sample ''a'', demo_sample ''b''], y_to_label = demo_labels\<rparr>"
        "demo_checkpoint ''xgboost.sklearn.XGBClassifier''"]
    demo_xgb_predictions
  by (simp add: demo_image_size demo_sample_def demo_env_def demo_checkpoint_def)

subsection \<open>The first largest element\<close>

lemma argmax_from_spec:
  "length pre = i \<Longrightarrow> bi < i \<Longrightarrow> pre ! bi = bv \<Longrightarrow> \<forall>j < i. pre ! j \<le> bv
   \<Longrightarrow> \<forall>j < bi. pre ! j < bv
   \<Longrightarrow> argmax_from bi bv i xs < i + length xs
       \<and> (\<forall>j < i + length xs. (pre @ xs) ! j \<le> (pre @ xs) ! argmax_from bi bv i xs)
       \<and> (\<forall>j < argmax_from bi bv i xs. (pre @ xs) ! j < (pre @ xs) ! argmax_from bi bv i xs)"
proof (induction xs arbitrary: pre i bi bv)
  case Nil
  then show ?case by simp
next
  case (Cons x xs)
  show ?case
  proof (cases "bv < x")
    case True
    have "argmax_from i x (Suc i) xs < Suc i + length xs
       \<and> (\<forall>j < Suc i + length xs. ((pre @ [x]) @ xs) ! j \<le> ((pre @ [x]) @ xs) ! argmax_from i x (Suc i) xs)
       \<and> (\<forall>j < argmax_from i x (Suc i) xs. ((pre @ [x]) @ xs) ! j < ((pre @ [x]) @ xs) ! argmax_from i x (Suc i) xs)"
    proof (rule Cons.IH)
      show "length (pre @ [x]) = Suc i" using Cons.prems(1) by simp
      show "i < Suc i" by simp
      show "(pre @ [x]) ! i = x" using Cons.prems(1) by (simp add: nth_append)
      show "\<forall>j < Suc i. (pre @ [x]) ! j \<le> x"
        using Cons.prems(1,4) True by (auto simp: nth_append less_Suc_eq dest: order_le_less_trans)
      show "\<forall>j < i. (pre @ [x]) ! j < x"
        using Cons.prems(1,4) True by (auto simp: nth_append dest: order_le_less_trans)
    qed
    with True show ?thesis by simp
  next
    case False
    have "argmax_from bi bv (Suc i) xs < Suc i + length xs
       \<and> (\<forall>j < Suc i + length xs. ((pre @ [x]) @ xs) ! j \<le> ((pre @ [x]) @ xs) ! argmax_from bi bv (Suc i) xs)
       \<and> (\<forall>j < argmax_from bi bv (Suc i) xs. ((pre @ [x]) @ xs) ! j < ((pre @ [x]) @ xs) ! argmax_from bi bv (Suc i) xs)"
    proof (rule Cons.IH)
      show "length (pre @ [x]) = Suc i" using Cons.prems(1) by simp
      show "bi < Suc i" using Cons.prems(2) by simp
      show "(pre @ [x]) ! bi = bv" using Cons.prems(1,2,3) by (simp add: nth_append)
      show "\<forall>j < Suc i. (pre @ [x]) ! j \<le> bv"
        using Cons.prems(1,4) False by (auto simp: nth_append less_Suc_eq)
      show "\<forall>j < bi. (pre @ [x]) ! j < bv"
        using Cons.prems(1,2,5) by (auto simp: nth_append)
    qed
    with False show ?thesis by simp
  qed
qed

lemma argmax_list_spec:
  "xs \<noteq> [] \<Longrightarrow>
   argmax_list xs < length xs
   \<and> (\<forall>j < length xs. xs ! j \<le> xs ! argmax_list xs)
   \<and> (\<forall>j < argmax_list xs. xs ! j < xs ! argmax_list xs)"
proof (cases xs)
  case Nil
  assume "xs \<noteq> []"
  with Nil show ?thesis by simp
next
  case (Cons x rest)
  from argmax_from_spec [of "[x]" 1 0 x rest] show ?thesis
    by (simp add: Cons argmax_list_def)
qed

subsection \<open>Arrays\<close>

lemma length_chunks [simp]: "length (chunks n t xs) = n"
  by (induction n arbitrary: xs) simp_all

lemma chunks_concat:
  "\<forall>ys \<in> set xss. length ys = t \<Longrightarrow> chunks (length xss) t (concat xss) = xss"
  by (induction xss) simp_all

lemma argmax_axis1_Inr:
  "argmax_axis1 a = Inr p \<longleftrightarrow>
     (\<exists>n c rest. shape a = n # c # rest \<and> 0 < c
        \<and> p = \<lparr>shape = n # rest,
                elems = concat (map (\<lambda>i. map (\<lambda>k.
                   argmax_list (map (\<lambda>j. elems a ! ((i * c + j) * prod_list rest + k)) [0..<c]))
                   [0..<prod_list rest]) [0..<n])\<rparr>)"
  by (auto simp: argmax_axis1_def Let_def split: list.splits)

lemma iter_argmax:
  assumes "shape a = n # c # rest" "0 < c" "argmax_axis1 a = Inr p"
  shows "iter_array p =
     Inr (map (\<lambda>i. \<lparr>shape = rest,
                   elems = map (\<lambda>k. argmax_list
                      (map (\<lambda>j. elems a ! ((i * c + j) * prod_list rest + k)) [0..<c]))
                      [0..<prod_list rest]\<rparr>) [0..<n])"
proof -
  let ?rows = "map (\<lambda>i. map (\<lambda>k.
                   argmax_list (map (\<lambda>j. elems a ! ((i * c + j) * prod_list rest + k)) [0..<c]))
                   [0..<prod_list rest]) [0..<n]"
  from assms have p: "p = \<lparr>shape = n # rest, elems = concat ?rows\<rparr>"
    by (simp add: argmax_axis1_Inr)
  have "chunks (length ?rows) (prod_list rest) (concat ?rows) = ?rows"
    by (rule chunks_concat) auto
  then have "chunks n (prod_list rest) (concat ?rows) = ?rows" by simp
  then show ?thesis by (simp add: p iter_array_def comp_def)
qed

lemma argmax_axis1_items:
  assumes "argmax_axis1 a = Inr p"
  shows "\<exists>n c rest items. shape a = n # c # rest \<and> 0 < c
     \<and> iter_predictions (PArray p) = Inr items \<and> length items = n
     \<and> (\<forall>i < n. shape (items ! i) = rest \<and> length (elems (items ! i)) = prod_list rest
          \<and> (\<forall>k < prod_list rest.
                elems (items ! i) ! k < c
              \<and> (\<forall>j < c. elems a ! ((i * c + j) * prod_list rest + k)
                         \<le> elems a ! ((i * c + elems (items ! i) ! k) * prod_list rest + k))
              \<and> (\<forall>j < elems (items ! i) ! k. elems a ! ((i * c + j) * prod_list rest + k)
                         < elems a ! ((i * c + elems (items ! i) ! k) * prod_list rest + k))))"
proof -
  from assms obtain n c rest where s: "shape a = n # c # rest" "0 < c"
    by (auto simp: argmax_axis1_Inr)
  let ?t = "prod_list rest"
  let ?col = "\<lambda>i k. map (\<lambda>j. elems a ! ((i * c + j) * ?t + k)) [0..<c]"
  let ?items = "map (\<lambda>i. \<lparr>shape = rest, elems = map (\<lambda>k. argmax_list (?col i k)) [0..<?t]\<rparr>) [0..<n]"
  have it: "iter_predictions (PArray p) = Inr ?items"
    using iter_argmax [OF s assms] by (simp add: iter_predictions_def)
  have "shape (?items ! i) = rest \<and> length (elems (?items ! i)) = ?t
          \<and> (\<forall>k < ?t.
                elems (?items ! i) ! k < c
              \<and> (\<forall>j < c. elems a ! ((i * c + j) * ?t + k)
                         \<le> elems a ! ((i * c + elems (?items ! i) ! k) * ?t + k))
              \<and> (\<forall>j < elems (?items ! i) ! k. elems a ! ((i * c + j) * ?t + k)
                         < elems a ! ((i * c + elems (?items ! i) ! k) * ?t + k)))"
    if i: "i < n" for i
  proof -
    have "elems (?items ! i) ! k < c
              \<and> (\<forall>j < c. elems a ! ((i * c + j) * ?t + k)
                         \<le> elems a ! ((i * c + elems (?items ! i) ! k) * ?t + k))
              \<and> (\<forall>j < elems (?items ! i) ! k. elems a ! ((i * c + j) * ?t + k)
                         < elems a ! ((i * c + elems (?items ! i) ! k) * ?t + k))"
      if k: "k < ?t" for k
    proof -
      define col where "col = ?col i k"
      have len: "length col = c" by (simp add: col_def)
      have nth: "col ! j = elems a ! ((i * c + j) * ?t + k)" if "j < c" for j
        using that by (simp add: col_def)
      have ne: "col \<noteq> []" using s(2) len by auto
      have e: "elems (?items ! i) ! k = argmax_list col" using i k by (simp add: col_def)
      from argmax_list_spec [OF ne] len have
        a1: "argmax_list col < c" and
        a2: "\<forall>j < c. col ! j \<le> col ! argmax_list col" and
        a3: "\<forall>j < argmax_list col. col ! j < col ! argmax_list col"
        by auto
      have "argmax_list col < c
              \<and> (\<forall>j < c. elems a ! ((i * c + j) * ?t + k)
                         \<le> elems a ! ((i * c + argmax_list col) * ?t + k))
              \<and> (\<forall>j < argmax_list col. elems a ! ((i * c + j) * ?t + k)
                         < elems a ! ((i * c + argmax_list col) * ?t + k))"
        using a1 a2 a3 nth by auto
      then show ?thesis unfolding e by simp
    qed
    moreover have "shape (?items ! i) = rest" using i by simp
    moreover have "length (elems (?items ! i)) = ?t" using i by simp
    ultimately show ?thesis by blast
  qed
  with s it show ?thesis by (intro exI [of _ n] exI [of _ c] exI [of _ rest] exI [of _ ?items]) simp
qed


lemma iter_predictions_PList [simp]: "iter_predictions (PList ps) = Inr (map scalar ps)"
  by (simp add: iter_predictions_def)

lemma compute_predictions_value:
  "fst (compute_predictions env ds ck w) =
     (if py_in ''ManNet'' (model_class ck) then
        (case bindE (predict_gnn env ds ck) argmax_axis1 of
           Inl e \<Rightarrow> Inl e | Inr p \<Rightarrow> Inr (Some (PArray p)))
      else if py_in ''CNN'' (model_class ck) then
        (case bindE (predict_cnn env ds ck) argmax_axis1 of
           Inl e \<Rightarrow> Inl e | Inr p \<Rightarrow> Inr (Some (PArray p)))
      else if py_in ''XGB'' (model_class ck) then
        (case predict_xgb env ds ck of
           Inl e \<Rightarrow> Inl e | Inr ps \<Rightarrow> Inr (Some (PList ps)))
      else Inr None)"
  by (simp add: compute_predictions_def Let_def split: sum.splits)

subsection \<open>Predictions from logits\<close>

text \<open>
  Claim C8. In the GNN branch and in the CNN branch the predictions are
  \<^verbatim>\<open>argmax(axis=1)\<close> of the logits that the routine returned; in the XGB branch they are
  the list that \<^verbatim>\<open>predict_xgb\<close> returned, read element by element with no argmax.
  Whenever \<^verbatim>\<open>argmax(axis=1)\<close> returns, the logits have a shape \<open>n # c # rest\<close> with
  \<open>c > 0\<close>, and iterating the predictions gives exactly \<open>n\<close> items, one per row of the
  logits; every entry of the \<open>i\<close>-th item is an index below \<open>c\<close> of a largest entry of
  row \<open>i\<close> along axis 1, and the first such index.
\<close>

theorem predictions_are_argmax_along_axis_1:
  "(py_in ''ManNet'' (model_class ck1) \<longrightarrow>
      fst (compute_predictions env ds1 ck1 w1) =
        (case bindE (predict_gnn env ds1 ck1) argmax_axis1 of
           Inl e \<Rightarrow> Inl e | Inr p \<Rightarrow> Inr (Some (PArray p))))
   \<and> (\<not> py_in ''ManNet'' (model_class ck2) \<and> py_in ''CNN'' (model_class ck2) \<longrightarrow>
      fst (compute_predictions env ds2 ck2 w2) =
        (case bindE (predict_cnn env ds2 ck2) argmax_axis1 of
           Inl e \<Rightarrow> Inl e | Inr p \<Rightarrow> Inr (Some (PArray p))))
   \<and> (\<not> py_in ''ManNet'' (model_class ck3) \<and> \<not> py_in ''CNN'' (model_class ck3)
        \<and> py_in ''XGB'' (model_class ck3) \<longrightarrow>
      fst (compute_predictions env ds3 ck3 w3) =
        (case predict_xgb env ds3 ck3 of
           Inl e \<Rightarrow> Inl e | Inr ps \<Rightarrow> Inr (Some (PList ps))))
   \<and> iter_predictions (PList ps) = Inr (map scalar ps)
   \<and> (argmax_axis1 logits = Inr p \<longrightarrow>
       (\<exists>n c rest items. shape logits = n # c # rest \<and> 0 < c
          \<and> iter_predictions (PArray p) = Inr items \<and> length items = n
          \<and> (\<forall>i < n. shape (items ! i) = rest \<and> length (elems (items ! i)) = prod_list rest
               \<and> (\<forall>k < prod_list rest.
                     elems (items ! i) ! k < c
                   \<and> (\<forall>j < c. elems logits ! ((i * c + j) * prod_list rest + k)
                         \<le> elems logits ! ((i * c + elems (items ! i) ! k) * prod_list rest + k))
                   \<and> (\<forall>j < elems (items ! i) ! k.
                         elems logits ! ((i * c + j) * prod_list rest + k)
                         < elems logits ! ((i * c + elems (items ! i) ! k) * prod_list rest + k))))))"
proof (intro conjI impI)
  show "iter_predictions (PList ps) = Inr (map scalar ps)" by simp
next
  assume "argmax_axis1 logits = Inr p"
  then show "\<exists>n c rest items. shape logits = n # c # rest \<and> 0 < c
          \<and> iter_predictions (PArray p) = Inr items \<and> length items = n
          \<and> (\<forall>i < n. shape (items ! i) = rest \<and> length (elems (items ! i)) = prod_list rest
               \<and> (\<forall>k < prod_list rest.
                     elems (items ! i) ! k < c
                   \<and> (\<forall>j < c. elems logits ! ((i * c + j) * prod_list rest + k)
                         \<le> elems logits ! ((i * c + elems (items ! i) ! k) * prod_list rest + k))
                   \<and> (\<forall>j < elems (items ! i) ! k.
                         elems logits ! ((i * c + j) * prod_list rest + k)
                         < elems logits ! ((i * c + elems (items ! i) ! k) * prod_list rest + k))))"
    by (rule argmax_axis1_items)
qed (simp_all add: compute_predictions_value)

lemma demo_argmax:
  "argmax_axis1 \<lparr>shape = [2, 3], elems = [1, 5, 5, 7, 2, 7 :: int]\<rparr>
     = Inr \<lparr>shape = [2], elems = [1, 0]\<rparr>"
  by code_simp

lemma demo_model_classes:
  "py_in ''ManNet'' ''morphoclass.models.man_net.ManNet''"
  "\<not> py_in ''ManNet'' ''morphoclass.models.cnnet.CNNet''"
  "py_in ''CNN'' ''morphoclass.models.cnnet.CNNet''"
  "\<not> py_in ''ManNet'' ''xgboost.sklearn.XGBClassifier''"
  "\<not> py_in ''CNN'' ''xgboost.sklearn.XGBClassifier''"
  "py_in ''XGB'' ''xgboost.sklearn.XGBClassifier''"
  "\<not> py_in ''ManNet'' ''sklearn.tree.DecisionTreeClassifier''"
  "\<not> py_in ''CNN'' ''sklearn.tree.DecisionTreeClassifier''"
  "\<not> py_in ''XGB'' ''sklearn.tree.DecisionTreeClassifier''"
  by (simp_all add: startswith_def)

theorem predictions_are_argmax_along_axis_1_witness:
  "py_in ''ManNet'' (model_class (demo_checkpoint ''morphoclass.models.man_net.ManNet''))
   \<and> (\<not> py_in ''ManNet'' (model_class (demo_checkpoint ''morphoclass.models.cnnet.CNNet''))
      \<and> py_in ''CNN'' (model_class (demo_checkpoint ''morphoclass.models.cnnet.CNNet'')))
   \<and> (\<not> py_in ''ManNet'' (model_class (demo_checkpoint ''xgboost.sklearn.XGBClassifier''))
      \<and> \<not> py_in ''CNN'' (model_class (demo_checkpoint ''xgboost.sklearn.XGBClassifier''))
      \<and> py_in ''XGB'' (model_class (demo_checkpoint ''xgboost.sklearn.XGBClassifier'')))
   \<and> argmax_axis1 \<lparr>shape = [2, 3], elems = [1, 5, 5, 7, 2, 7 :: int]\<rparr>
        = Inr \<lparr>shape = [2], elems = [1, 0]\<rparr>
   \<and> fst (compute_predictions demo_env
        \<lparr>data = [demo_sample ''a''], y_to_label = demo_labels\<rparr>
        (demo_checkpoint ''morphoclass.models.man_net.ManNet'') (demo_world []))
      = Inr (Some (PArray \<lparr>shape = [1], elems = [1]\<rparr>))
   \<and> fst (compute_predictions demo_env
        \<lparr>data = [demo_sample ''a''], y_to_label = demo_labels\<rparr>
        (demo_checkpoint ''morphoclass.models.cnnet.CNNet'') (demo_world []))
      = Inr (Some (PArray \<lparr>shape = [1], elems = [0]\<rparr>))
   \<and> fst (compute_predictions demo_env
        \<lparr>data = [demo_sample ''a'', demo_sample ''b''], y_to_label = demo_labels\<rparr>
        (demo_checkpoint ''xgboost.sklearn.XGBClassifier'') (demo_world []))
      = Inr (Some (PList [1, 1]))
   \<and> (\<exists>items. iter_predictions (PArray \<lparr>shape = [2], elems = [1, 0]\<rparr>) = Inr items
         \<and> length items = 2)"
proof -
  have am1: "argmax_axis1 \<lparr>shape = [1, 2], elems = [0, 1 :: int]\<rparr>
     = Inr \<lparr>shape = [1], elems = [1]\<rparr>" by code_simp
  have am2: "argmax_axis1 \<lparr>shape = [1, 2], elems = [3, 1 :: int]\<rparr>
     = Inr \<lparr>shape = [1], elems = [0]\<rparr>" by code_simp
  have mc: "model_class (demo_checkpoint s) = s" for s by (simp add: demo_checkpoint_def)
  note t = predictions_are_argmax_along_axis_1
    [of "demo_checkpoint ''morphoclass.models.man_net.ManNet''" demo_env
        "\<lparr>data = [demo_sample ''a''], y_to_label = demo_labels\<rparr>" "demo_world []"
        "demo_checkpoint ''morphoclass.models.cnnet.CNNet''"
        "\<lparr>data = [demo_sample ''a''], y_to_label = demo_labels\<rparr>" "demo_world []"
        "demo_checkpoint ''xgboost.sklearn.XGBClassifier''"
        "\<lparr>data = [demo_sample ''a'', demo_sample ''b''], y_to_label = demo_labels\<rparr>"
        "demo_world []" "[]"
        "\<lparr>shape = [2, 3], elems = [1, 5, 5, 7, 2, 7]\<rparr>" "\<lparr>shape = [2], elems = [1, 0]\<rparr>"]
  have h1: "py_in ''ManNet'' (model_class (demo_checkpoint ''morphoclass.models.man_net.ManNet''))"
    by (simp only: mc demo_model_classes)
  have h2: "\<not> py_in ''ManNet'' (model_class (demo_checkpoint ''morphoclass.models.cnnet.CNNet''))
      \<and> py_in ''CNN'' (model_class (demo_checkpoint ''morphoclass.models.cnnet.CNNet''))"
    by (simp only: mc demo_model_classes simp_thms)
  have h3: "\<not> py_in ''ManNet'' (model_class (demo_checkpoint ''xgboost.sklearn.XGBClassifier''))
      \<and> \<not> py_in ''CNN'' (model_class (demo_checkpoint ''xgboost.sklearn.XGBClassifier''))
      \<and> py_in ''XGB'' (model_class (demo_checkpoint ''xgboost.sklearn.XGBClassifier''))"
    by (simp only: mc demo_model_classes simp_thms)
  have g: "fst (compute_predictions demo_env
        \<lparr>data = [demo_sample ''a''], y_to_label = demo_labels\<rparr>
        (demo_checkpoint ''morphoclass.models.man_net.ManNet'') (demo_world []))
      = Inr (Some (PArray \<lparr>shape = [1], elems = [1]\<rparr>))"
    using t [THEN conjunct1, THEN mp, OF h1]
    by (simp only: demo_gnn_logits bindE_simps am1 sum.case)
  have c: "fst (compute_predictions demo_env
        \<lparr>data = [demo_sample ''a''], y_to_label = demo_labels\<rparr>
        (demo_checkpoint ''morphoclass.models.cnnet.CNNet'') (demo_world []))
      = Inr (Some (PArray \<lparr>shape = [1], elems = [0]\<rparr>))"
    using t [THEN conjunct2, THEN conjunct1, THEN mp, OF h2]
    by (simp only: demo_cnn_logits bindE_simps am2 sum.case)
  have x: "fst (compute_predictions demo_env
        \<lparr>data = [demo_sample ''a'', demo_sample ''b''], y_to_label = demo_labels\<rparr>
        (demo_checkpoint ''xgboost.sklearn.XGBClassifier'') (demo_world []))
      = Inr (Some (PList [1, 1]))"
    using t [THEN conjunct2, THEN conjunct2, THEN conjunct1, THEN mp, OF h3]
    by (simp only: demo_xgb_predictions sum.case)
  from t [THEN conjunct2, THEN conjunct2, THEN conjunct2, THEN conjunct2, THEN mp, OF demo_argmax]
  obtain n c' rest items where
    "shape \<lparr>shape = [2, 3], elems = [1, 5, 5, 7, 2, 7 :: int]\<rparr> = n # c' # rest"
    "iter_predictions (PArray \<lparr>shape = [2], elems = [1, 0]\<rparr>) = Inr items" "length items = n"
    by blast
  then have i: "\<exists>items. iter_predictions (PArray \<lparr>shape = [2], elems = [1, 0]\<rparr>) = Inr items
         \<and> length items = 2"
    by simp
  show ?thesis
    using h1 h2 h3 g c x i demo_argmax by blast
qed

subsection \<open>Effects of the stages\<close>

lemma emit_fields [simp]:
  "fs (emit e w) = fs w" "stdin (emit e w) = stdin w" "trace (emit e w) = trace w @ [e]"
  by (simp_all add: emit_def)

lemma secho_fields [simp]:
  "fs (secho m w) = fs w" "stdin (secho m w) = stdin w" "trace (secho m w) = trace w @ [Secho m]"
  by (simp_all add: secho_def)

lemma path_exists_emit [simp]:
  "path_exists (emit e w) p = path_exists w p" "path_exists (secho m w) p = path_exists w p"
  by (simp_all add: path_exists_def)

lemma glob_features_emit [simp]:
  "glob_features (emit e w) d = glob_features w d" "glob_features (secho m w) d = glob_features w d"
  by (simp_all add: glob_features_def)

lemma open_w_cong: "fs w' = fs w \<Longrightarrow> open_w p w' = open_w p w"
  unfolding open_w_def by (simp only:)

lemma fields_trace_update [simp]:
  "glob_features (w\<lparr>trace := t\<rparr>) d = glob_features w d"
  "path_exists (w\<lparr>trace := t\<rparr>) p = path_exists w p"
  "open_w p (w\<lparr>trace := t\<rparr>) = open_w p w"
proof -
  show "glob_features (w\<lparr>trace := t\<rparr>) d = glob_features w d"
    by (simp add: glob_features_def)
  show "path_exists (w\<lparr>trace := t\<rparr>) p = path_exists w p"
    by (simp add: path_exists_def)
  show "open_w p (w\<lparr>trace := t\<rparr>) = open_w p w"
    by (rule open_w_cong) simp
qed

lemma observe_append [simp]:
  "torch_loads (xs @ ys) = torch_loads xs @ torch_loads ys"
  "data_loads (xs @ ys) = data_loads xs @ data_loads ys"
  "dispatches (xs @ ys) = dispatches xs @ dispatches ys"
  "file_writes (xs @ ys) = file_writes xs @ file_writes ys"
  "messages (xs @ ys) = messages xs @ messages ys"
  by (simp_all add: torch_loads_def data_loads_def dispatches_def file_writes_def messages_def)

lemma observe_Nil [simp]:
  "torch_loads [] = []" "data_loads [] = []" "dispatches [] = []" "file_writes [] = []"
  "messages [] = []"
  by (simp_all add: torch_loads_def data_loads_def dispatches_def file_writes_def messages_def)

lemma observe_Cons [simp]:
  "torch_loads (e # xs) = (case e of TorchLoad p \<Rightarrow> [p] | _ \<Rightarrow> []) @ torch_loads xs"
  "data_loads (e # xs) = (case e of DataLoad p \<Rightarrow> [p] | _ \<Rightarrow> []) @ data_loads xs"
  "dispatches (e # xs) = (case e of Dispatch r d \<Rightarrow> [(r, d)] | _ \<Rightarrow> []) @ dispatches xs"
  "file_writes (e # xs) = (case e of FileWrite p \<Rightarrow> [p] | _ \<Rightarrow> []) @ file_writes xs"
  "messages (e # xs) = (case e of Secho m \<Rightarrow> [m] | _ \<Rightarrow> []) @ messages xs"
  by (simp_all add: torch_loads_def data_loads_def dispatches_def file_writes_def messages_def)

lemma data_loads_map_DataLoad [simp]: "data_loads (map DataLoad ps) = ps"
  by (induction ps) simp_all

lemma observe_map_DataLoad [simp]:
  "torch_loads (map DataLoad ps) = []" "dispatches (map DataLoad ps) = []"
  "file_writes (map DataLoad ps) = []" "messages (map DataLoad ps) = []"
  by (induction ps) simp_all

lemma new_events_append [simp]: "trace w' = trace w @ evs \<Longrightarrow> new_events w w' = evs"
  by (simp add: new_events_def)

text \<open>Loading the samples.\<close>

lemma load_all_value: "fst (load_all env ps w) = mapE (MorphologyData_load env) ps"
proof (induction ps arbitrary: w)
  case Nil
  then show ?case by simp
next
  case (Cons p ps)
  from Cons.IH [of "emit (DataLoad p) w"] show ?case
    by (cases "load_all env ps (emit (DataLoad p) w)")
       (auto simp: Let_def split: sum.splits)
qed

lemma load_all_world:
  "\<exists>k \<le> length ps. snd (load_all env ps w) = w\<lparr>trace := trace w @ map DataLoad (take k ps)\<rparr>
      \<and> ((\<exists>ss. fst (load_all env ps w) = Inr ss) \<longrightarrow> k = length ps)"
proof (induction ps arbitrary: w)
  case Nil
  then show ?case by simp
next
  case (Cons p ps)
  show ?case
  proof (cases "MorphologyData_load env p")
    case (Inl e)
    then show ?thesis
      by (intro exI [of _ 1]) (simp add: emit_def)
  next
    case (Inr s)
    from Cons.IH [of "emit (DataLoad p) w"] obtain k where
      k: "k \<le> length ps"
         "snd (load_all env ps (emit (DataLoad p) w))
            = (emit (DataLoad p) w)\<lparr>trace := trace (emit (DataLoad p) w) @ map DataLoad (take k ps)\<rparr>"
         "(\<exists>ss. fst (load_all env ps (emit (DataLoad p) w)) = Inr ss) \<longrightarrow> k = length ps"
      by blast
    show ?thesis
      using Inr k
      by (intro exI [of _ "Suc k"])
         (cases "load_all env ps (emit (DataLoad p) w)",
          auto simp: emit_def Let_def split: sum.splits)
  qed
qed


lemma load_checkpoint_value:
  "fst (load_checkpoint env cf w) =
     (case torch_load env cf of
        Inl e \<Rightarrow> Inl e
      | Inr ck \<Rightarrow> if metadata ck = Some None then Inl KeyError else Inr ck)"
  by (simp add: load_checkpoint_def Let_def split: sum.splits option.splits)

lemma load_checkpoint_effect:
  "\<exists>evs. snd (load_checkpoint env cf w) = w\<lparr>trace := trace w @ evs\<rparr>
     \<and> torch_loads evs = [cf] \<and> data_loads evs = [] \<and> dispatches evs = []
     \<and> file_writes evs = [] \<and> ComputingPredictions \<notin> set (messages evs)"
proof (cases "torch_load env cf")
  case (Inl e)
  then show ?thesis
    by (intro exI [of _ "[Secho LoadingCheckpoint, TorchLoad cf]"])
       (simp add: load_checkpoint_def emit_def secho_def)
next
  case (Inr ck)
  show ?thesis
  proof (cases "metadata ck")
    case None
    with Inr show ?thesis
      by (intro exI [of _ "[Secho LoadingCheckpoint, TorchLoad cf, Secho (ModelMsg (model_class ck))]"])
         (simp add: load_checkpoint_def emit_def secho_def)
  next
    case (Some m)
    show ?thesis
    proof (cases m)
      case None
      with Inr Some show ?thesis
        by (intro exI [of _ "[Secho LoadingCheckpoint, TorchLoad cf, Secho (ModelMsg (model_class ck))]"])
           (simp add: load_checkpoint_def emit_def secho_def)
    next
      case (Some t)
      with Inr \<open>metadata ck = Some m\<close> show ?thesis
        by (intro exI [of _ "[Secho LoadingCheckpoint, TorchLoad cf,
              Secho (ModelMsg (model_class ck)), Secho (CreatedOn t)]"])
           (simp add: load_checkpoint_def emit_def secho_def)
    qed
  qed
qed

lemma load_dataset_effect:
  "\<exists>evs k. snd (load_dataset env d w) = w\<lparr>trace := trace w @ evs\<rparr>
     \<and> torch_loads evs = [] \<and> dispatches evs = [] \<and> file_writes evs = []
     \<and> ComputingPredictions \<notin> set (messages evs)
     \<and> data_loads evs = take k (sort (glob_features w d))
     \<and> (\<forall>ds. fst (load_dataset env d w) = Inr ds \<longrightarrow>
           data_loads evs = sort (glob_features w d)
         \<and> (\<exists>samples. mapE (MorphologyData_load env) (sort (glob_features w d)) = Inr samples
               \<and> MorphologyDataset env samples = Inr ds))"
proof -
  let ?ps = "sort (glob_features w d)"
  let ?w1 = "secho LoadingData w"
  obtain r w2 where la: "load_all env ?ps ?w1 = (r, w2)" by (cases "load_all env ?ps ?w1")
  from load_all_world [of ?ps env ?w1] la obtain k where
    k: "k \<le> length ?ps" "w2 = ?w1\<lparr>trace := trace ?w1 @ map DataLoad (take k ?ps)\<rparr>"
       "(\<exists>ss. r = Inr ss) \<longrightarrow> k = length ?ps"
    by auto
  from load_all_value [of env ?ps ?w1] la have r: "r = mapE (MorphologyData_load env) ?ps"
    by simp
  have w2: "w2 = w\<lparr>trace := trace w @ Secho LoadingData # map DataLoad (take k ?ps)\<rparr>"
    using k(2) by (simp add: secho_def emit_def)
  show ?thesis
  proof (cases r)
    case (Inl e)
    with la w2 show ?thesis
      by (intro exI [of _ "Secho LoadingData # map DataLoad (take k ?ps)"] exI [of _ k])
         (simp add: load_dataset_def Let_def)
  next
    case (Inr samples)
    with k(3) have kk: "take k ?ps = ?ps" by simp
    show ?thesis
    proof (cases "MorphologyDataset env samples")
      case (Inl e)
      with Inr la w2 show ?thesis
        by (intro exI [of _ "Secho LoadingData # map DataLoad (take k ?ps)"] exI [of _ k])
           (simp add: load_dataset_def Let_def)
    next
      case (Inr ds)
      with \<open>r = Inr samples\<close> la w2 kk r show ?thesis
        by (intro exI [of _ "Secho LoadingData # map DataLoad ?ps
                @ [Secho (DatasetLength (length (data ds)))]"] exI [of _ k])
           (simp add: load_dataset_def secho_def emit_def Let_def)
    qed
  qed
qed

lemma compute_predictions_effect:
  "snd (compute_predictions env ds ck w) =
     w\<lparr>trace := trace w @
        [Secho ComputingPredictions,
         if py_in ''ManNet'' (model_class ck) then Dispatch GNN ds
         else if py_in ''CNN'' (model_class ck) then Dispatch CNN ds
         else if py_in ''XGB'' (model_class ck) then Dispatch XGB ds
         else Secho (ModelNotRecognized (model_class ck))]\<rparr>"
  by (simp add: compute_predictions_def Let_def secho_def emit_def split: sum.splits)

lemma export_results_effect:
  "(\<exists>labels. bindE (iter_predictions preds) (\<lambda>items. label_loop ds (zip (data ds) items) [])
        = Inr labels
      \<and> open_w rp w = Inr ()
      \<and> export_results ds preds cf mc rp w =
          (Inr (), w\<lparr>fs := AList.update rp (File (report labels cf mc)) (fs w),
                     trace := trace w @ [Secho ExportingResults, FileWrite rp, Secho Done]\<rparr>))
   \<or> (\<exists>e. export_results ds preds cf mc rp w =
          (Inl e, w\<lparr>trace := trace w @ [Secho ExportingResults]\<rparr>))"
proof (cases "bindE (iter_predictions preds) (\<lambda>items. label_loop ds (zip (data ds) items) [])")
  case (Inl e)
  then show ?thesis by (simp add: export_results_def secho_def emit_def)
next
  case (Inr labels)
  have ow: "open_w rp (secho ExportingResults w) = open_w rp w"
    by (rule open_w_cong) simp
  show ?thesis
  proof (cases "open_w rp w")
    case (Inl e)
    with Inr ow show ?thesis by (simp add: export_results_def secho_def emit_def)
  next
    case (Inr u)
    with \<open>_ = Inr labels\<close> ow show ?thesis
      by (simp add: export_results_def secho_def emit_def write_file_def)
  qed
qed

lemma predict_body_effect:
  fixes env :: "('a::linorder, 'c, 'p, 'm, 's) env"
  defines "run \<equiv> \<lambda>fd cf rp w. predict_body env fd cf rp w"
  shows "\<exists>evs k. trace (snd (run fd cf rp w)) = trace w @ evs
     \<and> stdin (snd (run fd cf rp w)) = stdin w
     \<and> torch_loads evs = [cf]
     \<and> data_loads evs = take k (sort (glob_features w fd))
     \<and> (\<forall>r ds. (r, ds) \<in> set (dispatches evs) \<longrightarrow>
           data_loads evs = sort (glob_features w fd)
         \<and> (\<exists>samples. mapE (MorphologyData_load env) (sort (glob_features w fd)) = Inr samples
               \<and> MorphologyDataset env samples = Inr ds))
     \<and> (ComputingPredictions \<notin> set (messages evs) \<longrightarrow> dispatches evs = [] \<and> file_writes evs = [])
     \<and> (ComputingPredictions \<in> set (messages evs) \<longrightarrow>
          data_loads evs = sort (glob_features w fd) \<and>
          (\<exists>ck. torch_load env cf = Inr ck
             \<and> map fst (dispatches evs) =
                 (if py_in ''ManNet'' (model_class ck) then [GNN]
                  else if py_in ''CNN'' (model_class ck) then [CNN]
                  else if py_in ''XGB'' (model_class ck) then [XGB]
                  else [])))
     \<and> (\<forall>ck. torch_load env cf = Inr ck \<and> \<not> py_in ''ManNet'' (model_class ck)
             \<and> \<not> py_in ''CNN'' (model_class ck) \<and> \<not> py_in ''XGB'' (model_class ck) \<longrightarrow>
           file_writes evs = []
         \<and> (ComputingPredictions \<in> set (messages evs) \<longrightarrow>
               fst (run fd cf rp w) = Inr ()
             \<and> last evs = Secho (ModelNotRecognized (model_class ck))))
     \<and> (file_writes evs = [] \<longrightarrow> fs (snd (run fd cf rp w)) = fs w)"
proof -
  let ?G = "sort (glob_features w fd)"
  obtain r1 w1 where lc: "load_checkpoint env cf w = (r1, w1)"
    by (cases "load_checkpoint env cf w")
  from load_checkpoint_effect [of env cf w] lc obtain evs1 where
    e1: "w1 = w\<lparr>trace := trace w @ evs1\<rparr>" "torch_loads evs1 = [cf]" "data_loads evs1 = []"
        "dispatches evs1 = []" "file_writes evs1 = []"
        "ComputingPredictions \<notin> set (messages evs1)"
    by auto
  from load_checkpoint_value [of env cf w] lc have
    v1: "r1 = (case torch_load env cf of Inl e \<Rightarrow> Inl e
               | Inr ck \<Rightarrow> if metadata ck = Some None then Inl KeyError else Inr ck)"
    by simp
  show ?thesis
  proof (cases r1)
    case (Inl e)
    with lc have "run fd cf rp w = (Inl e, w1)" by (simp add: run_def predict_body_def)
    with e1 show ?thesis
      by (intro exI [of _ evs1] exI [of _ 0]) simp
  next
    case (Inr ck)
    with v1 have tl: "torch_load env cf = Inr ck"
      by (auto split: sum.splits if_splits)
    obtain r2 w2 where ld: "load_dataset env fd w1 = (r2, w2)"
      by (cases "load_dataset env fd w1")
    have G1: "glob_features w1 fd = glob_features w fd" by (simp add: e1(1))
    from load_dataset_effect [of env fd w1] obtain evs2 k where
      e2': "snd (load_dataset env fd w1) = w1\<lparr>trace := trace w1 @ evs2\<rparr>"
          "torch_loads evs2 = []" "dispatches evs2 = []"
          "file_writes evs2 = []" "ComputingPredictions \<notin> set (messages evs2)"
          "data_loads evs2 = take k (sort (glob_features w1 fd))"
          "\<forall>ds. fst (load_dataset env fd w1) = Inr ds \<longrightarrow>
               data_loads evs2 = sort (glob_features w1 fd)
             \<and> (\<exists>samples. mapE (MorphologyData_load env) (sort (glob_features w1 fd)) = Inr samples
                   \<and> MorphologyDataset env samples = Inr ds)"
      by blast
    note e2 = e2' [unfolded ld G1 fst_conv snd_conv]
    have w2: "w2 = w\<lparr>trace := trace w @ evs1 @ evs2\<rparr>" using e1(1) e2(1) by simp
    show ?thesis
    proof (cases r2)
      case (Inl e)
      with lc ld Inr have "run fd cf rp w = (Inl e, w2)" by (simp add: run_def predict_body_def)
      with w2 e1 e2 show ?thesis
        by (intro exI [of _ "evs1 @ evs2"] exI [of _ k]) simp
    next
      case (Inr ds)
      with e2(7) have dl: "data_loads evs2 = ?G"
        and sm: "\<exists>samples. mapE (MorphologyData_load env) ?G = Inr samples
                   \<and> MorphologyDataset env samples = Inr ds"
        by auto
      let ?X = "if py_in ''ManNet'' (model_class ck) then Dispatch GNN ds
         else if py_in ''CNN'' (model_class ck) then Dispatch CNN ds
         else if py_in ''XGB'' (model_class ck) then Dispatch XGB ds
         else Secho (ModelNotRecognized (model_class ck))"
      obtain r3 w3 where cp: "compute_predictions env ds ck w2 = (r3, w3)"
        by (cases "compute_predictions env ds ck w2")
      from compute_predictions_effect [of env ds ck w2] cp have
        w3: "w3 = w\<lparr>trace := trace w @ evs1 @ evs2 @ [Secho ComputingPredictions, ?X]\<rparr>"
        by (simp add: w2)
      from compute_predictions_value [of env ds ck w2] cp have
        v3: "r3 = (if py_in ''ManNet'' (model_class ck) then
                (case bindE (predict_gnn env ds ck) argmax_axis1 of
                   Inl e \<Rightarrow> Inl e | Inr p \<Rightarrow> Inr (Some (PArray p)))
              else if py_in ''CNN'' (model_class ck) then
                (case bindE (predict_cnn env ds ck) argmax_axis1 of
                   Inl e \<Rightarrow> Inl e | Inr p \<Rightarrow> Inr (Some (PArray p)))
              else if py_in ''XGB'' (model_class ck) then
                (case predict_xgb env ds ck of
                   Inl e \<Rightarrow> Inl e | Inr ps \<Rightarrow> Inr (Some (PList ps)))
              else Inr None)"
        by simp
      let ?evs3 = "evs1 @ evs2 @ [Secho ComputingPredictions, ?X]"
      have base: "torch_loads ?evs3 = [cf]" "data_loads ?evs3 = ?G"
        "file_writes ?evs3 = []"
        "map fst (dispatches ?evs3) =
                 (if py_in ''ManNet'' (model_class ck) then [GNN]
                  else if py_in ''CNN'' (model_class ck) then [CNN]
                  else if py_in ''XGB'' (model_class ck) then [XGB]
                  else [])"
        "\<forall>r d. (r, d) \<in> set (dispatches ?evs3) \<longrightarrow> d = ds"
        "ComputingPredictions \<in> set (messages ?evs3)"
        using e1 e2 dl by simp_all
      have kG: "?G = take (length ?G) ?G" by simp
      show ?thesis
      proof (cases r3)
        case (Inl e)
        with lc ld cp \<open>r1 = Inr ck\<close> \<open>r2 = Inr ds\<close> have
          "run fd cf rp w = (Inl e, w3)" by (simp add: run_def predict_body_def)
        moreover from Inl v3 have
          "py_in ''ManNet'' (model_class ck) \<or> py_in ''CNN'' (model_class ck)
            \<or> py_in ''XGB'' (model_class ck)"
          by (auto split: if_splits)
        ultimately show ?thesis
          using w3 base sm tl
          by (intro exI [of _ ?evs3] exI [of _ "length ?G"]) (simp, blast)
      next
        case (Inr po)
        show ?thesis
        proof (cases po)
          case None
          with lc ld cp \<open>r1 = Inr ck\<close> \<open>r2 = Inr ds\<close> \<open>r3 = Inr po\<close> have
            "run fd cf rp w = (Inr (), w3)" by (simp add: run_def predict_body_def)
          moreover from None \<open>r3 = Inr po\<close> v3 have
            "\<not> py_in ''ManNet'' (model_class ck)" "\<not> py_in ''CNN'' (model_class ck)"
            "\<not> py_in ''XGB'' (model_class ck)"
            by (auto split: if_splits sum.splits)
          ultimately show ?thesis
            using w3 base sm tl
            by (intro exI [of _ ?evs3] exI [of _ "length ?G"]) simp
        next
          case (Some preds)
          with lc ld cp \<open>r1 = Inr ck\<close> \<open>r2 = Inr ds\<close> \<open>r3 = Inr po\<close> have
            run: "run fd cf rp w = export_results ds preds cf (model_class ck) rp w3"
            by (simp add: run_def predict_body_def)
          from Some \<open>r3 = Inr po\<close> v3 have rec:
            "py_in ''ManNet'' (model_class ck) \<or> py_in ''CNN'' (model_class ck)
              \<or> py_in ''XGB'' (model_class ck)"
            by (auto split: if_splits)
          from export_results_effect [of preds ds rp w3 cf "model_class ck"]
          consider
            (ok) labels where
              "export_results ds preds cf (model_class ck) rp w3 =
                 (Inr (), w3\<lparr>fs := AList.update rp (File (report labels cf (model_class ck))) (fs w3),
                     trace := trace w3 @ [Secho ExportingResults, FileWrite rp, Secho Done]\<rparr>)"
          | (err) e where
              "export_results ds preds cf (model_class ck) rp w3 =
                 (Inl e, w3\<lparr>trace := trace w3 @ [Secho ExportingResults]\<rparr>)"
            by blast
          then show ?thesis
          proof cases
            case ok
            with run w3 base sm tl rec show ?thesis
              by (intro exI [of _ "?evs3 @ [Secho ExportingResults, FileWrite rp, Secho Done]"]
                    exI [of _ "length ?G"]) (simp, blast)
          next
            case err
            with run w3 base sm tl rec show ?thesis
              by (intro exI [of _ "?evs3 @ [Secho ExportingResults]"]
                    exI [of _ "length ?G"]) (simp, blast)
          qed
        qed
      qed
    qed
  qed
qed

lemma glob_features_cong: "fs w' = fs w \<Longrightarrow> glob_features w' d = glob_features w d"
  by (simp add: glob_features_def)

lemma predict_unfold:
  "predict env fd cf od rn w =
     (let rp = results_path_of env od rn;
          w1 = w\<lparr>trace := trace w @ [Secho (FeaturesDirMsg (resolve env fd)),
                  Secho (OutputFileMsg rp), Secho (CheckpointMsg (resolve env cf))]\<rparr>
      in if path_exists w rp then
           (case stdin w of
              [] \<Rightarrow> (Inl EOFError, w1\<lparr>trace := trace w1 @ [Secho (OverwritePrompt rp)]\<rparr>)
            | response # rest \<Rightarrow>
                if py_lower (py_strip response) \<noteq> ''y''
                then (Inr (), w1\<lparr>stdin := rest,
                        trace := trace w1 @ [Secho (OverwritePrompt rp), Secho Stopping]\<rparr>)
                else predict_body env (resolve env fd) (resolve env cf) rp
                       (w1\<lparr>stdin := rest,
                          trace := trace w1 @ [Secho (OverwritePrompt rp), Secho Proceeding]\<rparr>))
         else predict_body env (resolve env fd) (resolve env cf) rp w1)"
  by (simp add: predict_def confirm_overwrite_def Let_def secho_def emit_def
      split: list.splits)

lemma predict_effect:
  fixes env :: "('a::linorder, 'c, 'p, 'm, 's) env"
  defines "run \<equiv> \<lambda>fd cf od rn w. predict env fd cf od rn w"
  shows "\<exists>evs k. trace (snd (run fd cf od rn w)) = trace w @ evs
     \<and> data_loads evs = take k (sort (glob_features w (resolve env fd)))
     \<and> (\<forall>r ds. (r, ds) \<in> set (dispatches evs) \<longrightarrow>
           data_loads evs = sort (glob_features w (resolve env fd))
         \<and> (\<exists>samples. mapE (MorphologyData_load env) (sort (glob_features w (resolve env fd)))
                 = Inr samples
               \<and> MorphologyDataset env samples = Inr ds))
     \<and> (ComputingPredictions \<notin> set (messages evs) \<longrightarrow> dispatches evs = [] \<and> file_writes evs = [])
     \<and> (ComputingPredictions \<in> set (messages evs) \<longrightarrow>
          data_loads evs = sort (glob_features w (resolve env fd)) \<and>
          (\<exists>ck. torch_load env (resolve env cf) = Inr ck
             \<and> map fst (dispatches evs) =
                 (if py_in ''ManNet'' (model_class ck) then [GNN]
                  else if py_in ''CNN'' (model_class ck) then [CNN]
                  else if py_in ''XGB'' (model_class ck) then [XGB]
                  else [])))
     \<and> (\<forall>ck. torch_load env (resolve env cf) = Inr ck \<and> \<not> py_in ''ManNet'' (model_class ck)
             \<and> \<not> py_in ''CNN'' (model_class ck) \<and> \<not> py_in ''XGB'' (model_class ck) \<longrightarrow>
           file_writes evs = []
         \<and> (ComputingPredictions \<in> set (messages evs) \<longrightarrow>
               fst (run fd cf od rn w) = Inr ()
             \<and> last evs = Secho (ModelNotRecognized (model_class ck))))
     \<and> (file_writes evs = [] \<longrightarrow> fs (snd (run fd cf od rn w)) = fs w)"
proof -
  let ?rp = "results_path_of env od rn"
  let ?pre = "[Secho (FeaturesDirMsg (resolve env fd)),
                  Secho (OutputFileMsg ?rp), Secho (CheckpointMsg (resolve env cf))]"
  let ?w1 = "w\<lparr>trace := trace w @ ?pre\<rparr>"
  have body: ?thesis
    if run: "run fd cf od rn w = predict_body env (resolve env fd) (resolve env cf) ?rp wb"
      and wb: "trace wb = trace w @ pre" "fs wb = fs w"
      and pre: "data_loads pre = []" "dispatches pre = []" "file_writes pre = []"
        "ComputingPredictions \<notin> set (messages pre)"
    for wb pre
  proof -
    from predict_body_effect [of env "resolve env fd" "resolve env cf" ?rp wb]
    obtain evs k where b:
      "trace (snd (predict_body env (resolve env fd) (resolve env cf) ?rp wb)) = trace wb @ evs"
      "data_loads evs = take k (sort (glob_features wb (resolve env fd)))"
      "\<forall>r ds. (r, ds) \<in> set (dispatches evs) \<longrightarrow>
           data_loads evs = sort (glob_features wb (resolve env fd))
         \<and> (\<exists>samples. mapE (MorphologyData_load env) (sort (glob_features wb (resolve env fd)))
                 = Inr samples
               \<and> MorphologyDataset env samples = Inr ds)"
      "ComputingPredictions \<notin> set (messages evs) \<longrightarrow> dispatches evs = [] \<and> file_writes evs = []"
      "ComputingPredictions \<in> set (messages evs) \<longrightarrow>
          data_loads evs = sort (glob_features wb (resolve env fd)) \<and>
          (\<exists>ck. torch_load env (resolve env cf) = Inr ck
             \<and> map fst (dispatches evs) =
                 (if py_in ''ManNet'' (model_class ck) then [GNN]
                  else if py_in ''CNN'' (model_class ck) then [CNN]
                  else if py_in ''XGB'' (model_class ck) then [XGB]
                  else []))"
      "\<forall>ck. torch_load env (resolve env cf) = Inr ck \<and> \<not> py_in ''ManNet'' (model_class ck)
             \<and> \<not> py_in ''CNN'' (model_class ck) \<and> \<not> py_in ''XGB'' (model_class ck) \<longrightarrow>
           file_writes evs = []
         \<and> (ComputingPredictions \<in> set (messages evs) \<longrightarrow>
               fst (predict_body env (resolve env fd) (resolve env cf) ?rp wb) = Inr ()
             \<and> last evs = Secho (ModelNotRecognized (model_class ck)))"
      "file_writes evs = [] \<longrightarrow>
         fs (snd (predict_body env (resolve env fd) (resolve env cf) ?rp wb)) = fs wb"
      by blast
    note G = glob_features_cong [OF wb(2), of "resolve env fd"]
    note b' = b [unfolded G run [symmetric] wb]
    have ne: "ComputingPredictions \<in> set (messages evs) \<Longrightarrow> evs \<noteq> []" by auto
    show ?thesis
      apply (intro exI [of _ "pre @ evs"] exI [of _ k])
      using b' pre ne by (simp add: last_append, blast)
  qed
  show ?thesis
  proof (cases "path_exists w ?rp")
    case False
    then have "run fd cf od rn w = predict_body env (resolve env fd) (resolve env cf) ?rp ?w1"
      by (simp add: run_def predict_unfold Let_def)
    from body [OF this, of ?pre] show ?thesis by simp
  next
    case True
    show ?thesis
    proof (cases "stdin w")
      case Nil
      with True have "run fd cf od rn w
        = (Inl EOFError, w\<lparr>trace := trace w @ ?pre @ [Secho (OverwritePrompt ?rp)]\<rparr>)"
        by (simp add: run_def predict_unfold Let_def)
      then show ?thesis
        by (intro exI [of _ "?pre @ [Secho (OverwritePrompt ?rp)]"] exI [of _ 0]) simp
    next
      case (Cons response rest)
      show ?thesis
      proof (cases "py_lower (py_strip response) \<noteq> ''y''")
        case True
        with \<open>path_exists w ?rp\<close> Cons have "run fd cf od rn w
          = (Inr (), w\<lparr>stdin := rest,
                trace := trace w @ ?pre @ [Secho (OverwritePrompt ?rp), Secho Stopping]\<rparr>)"
          by (simp add: run_def predict_unfold Let_def)
        then show ?thesis
          by (intro exI [of _ "?pre @ [Secho (OverwritePrompt ?rp), Secho Stopping]"] exI [of _ 0])
             simp
      next
        case False
        with \<open>path_exists w ?rp\<close> Cons have "run fd cf od rn w
          = predict_body env (resolve env fd) (resolve env cf) ?rp
              (?w1\<lparr>stdin := rest,
                  trace := trace ?w1 @ [Secho (OverwritePrompt ?rp), Secho Proceeding]\<rparr>)"
          by (simp add: run_def predict_unfold Let_def)
        from body [OF this, of "?pre @ [Secho (OverwritePrompt ?rp), Secho Proceeding]"]
        show ?thesis by simp
      qed
    qed
  qed
qed

text \<open>The run up to the prediction step.\<close>

lemma load_checkpoint_quiet:
  "\<exists>evs. snd (load_checkpoint env cf w) = w\<lparr>trace := trace w @ evs\<rparr>
     \<and> dispatches evs = [] \<and> file_writes evs = []
     \<and> ComputingPredictions \<notin> set (messages evs) \<and> ExportingResults \<notin> set (messages evs)"
proof (cases "torch_load env cf")
  case (Inl e)
  then show ?thesis
    by (intro exI [of _ "[Secho LoadingCheckpoint, TorchLoad cf]"])
       (simp add: load_checkpoint_def emit_def secho_def)
next
  case (Inr ck)
  show ?thesis
  proof (cases "metadata ck")
    case None
    with Inr show ?thesis
      by (intro exI [of _ "[Secho LoadingCheckpoint, TorchLoad cf, Secho (ModelMsg (model_class ck))]"])
         (simp add: load_checkpoint_def emit_def secho_def)
  next
    case (Some m)
    show ?thesis
    proof (cases m)
      case None
      with Inr Some show ?thesis
        by (intro exI [of _ "[Secho LoadingCheckpoint, TorchLoad cf, Secho (ModelMsg (model_class ck))]"])
           (simp add: load_checkpoint_def emit_def secho_def)
    next
      case (Some t)
      with Inr \<open>metadata ck = Some m\<close> show ?thesis
        by (intro exI [of _ "[Secho LoadingCheckpoint, TorchLoad cf,
              Secho (ModelMsg (model_class ck)), Secho (CreatedOn t)]"])
           (simp add: load_checkpoint_def emit_def secho_def)
    qed
  qed
qed

lemma load_dataset_quiet:
  "\<exists>evs. snd (load_dataset env d w) = w\<lparr>trace := trace w @ evs\<rparr>
     \<and> dispatches evs = [] \<and> file_writes evs = []
     \<and> ComputingPredictions \<notin> set (messages evs) \<and> ExportingResults \<notin> set (messages evs)"
proof -
  let ?ps = "sort (glob_features w d)"
  let ?w1 = "secho LoadingData w"
  obtain r w2 where la: "load_all env ?ps ?w1 = (r, w2)" by (cases "load_all env ?ps ?w1")
  from load_all_world [of ?ps env ?w1] la obtain k where
    k: "w2 = ?w1\<lparr>trace := trace ?w1 @ map DataLoad (take k ?ps)\<rparr>"
    by auto
  have w2: "w2 = w\<lparr>trace := trace w @ Secho LoadingData # map DataLoad (take k ?ps)\<rparr>"
    using k by (simp add: secho_def emit_def)
  show ?thesis
  proof (cases r)
    case (Inl e)
    with la w2 show ?thesis
      by (intro exI [of _ "Secho LoadingData # map DataLoad (take k ?ps)"])
         (simp add: load_dataset_def Let_def)
  next
    case (Inr samples)
    show ?thesis
    proof (cases "MorphologyDataset env samples")
      case (Inl e)
      with Inr la w2 show ?thesis
        by (intro exI [of _ "Secho LoadingData # map DataLoad (take k ?ps)"])
           (simp add: load_dataset_def Let_def)
    next
      case (Inr ds)
      with \<open>r = Inr samples\<close> la w2 show ?thesis
        by (intro exI [of _ "Secho LoadingData # map DataLoad (take k ?ps)
                @ [Secho (DatasetLength (length (data ds)))]"])
           (simp add: load_dataset_def secho_def emit_def Let_def)
    qed
  qed
qed

lemma load_dataset_value:
  "fst (load_dataset env d w) =
     bindE (mapE (MorphologyData_load env) (sort (glob_features w d))) (MorphologyDataset env)"
proof -
  let ?ps = "sort (glob_features w d)"
  let ?w1 = "secho LoadingData w"
  obtain r w2 where la: "load_all env ?ps ?w1 = (r, w2)" by (cases "load_all env ?ps ?w1")
  from load_all_value [of env ?ps ?w1] la have r: "r = mapE (MorphologyData_load env) ?ps"
    by simp
  show ?thesis
    using la r by (simp add: load_dataset_def Let_def bindE_def split: sum.splits)
qed

lemma predict_body_decompose:
  fixes env :: "('a::linorder, 'c, 'p, 'm, 's) env"
  shows "(\<exists>e pre. predict_body env fd cf rp w = (Inl e, w\<lparr>trace := trace w @ pre\<rparr>)
            \<and> ComputingPredictions \<notin> set (messages pre)
            \<and> ExportingResults \<notin> set (messages pre))
   \<or> (\<exists>ck samples ds pre.
          torch_load env cf = Inr ck
        \<and> mapE (MorphologyData_load env) (sort (glob_features w fd)) = Inr samples
        \<and> MorphologyDataset env samples = Inr ds
        \<and> ComputingPredictions \<notin> set (messages pre) \<and> ExportingResults \<notin> set (messages pre)
        \<and> dispatches pre = [] \<and> file_writes pre = []
        \<and> predict_body env fd cf rp w =
            (case compute_predictions env ds ck (w\<lparr>trace := trace w @ pre\<rparr>) of
               (Inl e, w3) \<Rightarrow> (Inl e, w3)
             | (Inr None, w3) \<Rightarrow> (Inr (), w3)
             | (Inr (Some preds), w3) \<Rightarrow> export_results ds preds cf (model_class ck) rp w3))"
proof -
  obtain r1 w1 where lc: "load_checkpoint env cf w = (r1, w1)"
    by (cases "load_checkpoint env cf w")
  from load_checkpoint_quiet [of env cf w] lc obtain evs1 where
    e1: "w1 = w\<lparr>trace := trace w @ evs1\<rparr>" "dispatches evs1 = []" "file_writes evs1 = []"
        "ComputingPredictions \<notin> set (messages evs1)" "ExportingResults \<notin> set (messages evs1)"
    by auto
  from load_checkpoint_value [of env cf w] lc have
    v1: "r1 = (case torch_load env cf of Inl e \<Rightarrow> Inl e
               | Inr ck \<Rightarrow> if metadata ck = Some None then Inl KeyError else Inr ck)"
    by simp
  show ?thesis
  proof (cases r1)
    case (Inl e)
    with lc have "predict_body env fd cf rp w = (Inl e, w\<lparr>trace := trace w @ evs1\<rparr>)"
      by (simp add: predict_body_def e1(1))
    with e1 show ?thesis by blast
  next
    case (Inr ck)
    with v1 have tl: "torch_load env cf = Inr ck"
      by (auto split: sum.splits if_splits)
    obtain r2 w2 where ld: "load_dataset env fd w1 = (r2, w2)"
      by (cases "load_dataset env fd w1")
    have G1: "glob_features w1 fd = glob_features w fd" by (simp add: e1(1))
    from load_dataset_quiet [of env fd w1] ld obtain evs2 where
      e2: "w2 = w1\<lparr>trace := trace w1 @ evs2\<rparr>" "dispatches evs2 = []" "file_writes evs2 = []"
        "ComputingPredictions \<notin> set (messages evs2)" "ExportingResults \<notin> set (messages evs2)"
      by auto
    from load_dataset_value [of env fd w1] ld G1 have
      v2: "r2 = bindE (mapE (MorphologyData_load env) (sort (glob_features w fd)))
                  (MorphologyDataset env)"
      by simp
    have w2: "w2 = w\<lparr>trace := trace w @ evs1 @ evs2\<rparr>" using e1(1) e2(1) by simp
    have q: "ComputingPredictions \<notin> set (messages (evs1 @ evs2))"
      "ExportingResults \<notin> set (messages (evs1 @ evs2))"
      "dispatches (evs1 @ evs2) = []" "file_writes (evs1 @ evs2) = []"
      using e1 e2 by simp_all
    show ?thesis
    proof (cases r2)
      case (Inl e)
      with lc ld Inr have "predict_body env fd cf rp w = (Inl e, w\<lparr>trace := trace w @ evs1 @ evs2\<rparr>)"
        by (simp add: predict_body_def w2)
      with q show ?thesis by blast
    next
      case (Inr ds)
      with v2 have "bindE (mapE (MorphologyData_load env) (sort (glob_features w fd)))
                  (MorphologyDataset env) = Inr ds"
        by simp
      then obtain samples where
        sm: "mapE (MorphologyData_load env) (sort (glob_features w fd)) = Inr samples"
            "MorphologyDataset env samples = Inr ds"
        unfolding bindE_eq_Inr by blast
      from lc ld \<open>r1 = Inr ck\<close> Inr have
        "predict_body env fd cf rp w =
            (case compute_predictions env ds ck (w\<lparr>trace := trace w @ evs1 @ evs2\<rparr>) of
               (Inl e, w3) \<Rightarrow> (Inl e, w3)
             | (Inr None, w3) \<Rightarrow> (Inr (), w3)
             | (Inr (Some preds), w3) \<Rightarrow> export_results ds preds cf (model_class ck) rp w3)"
        by (simp add: predict_body_def w2)
      with tl sm q show ?thesis by blast
    qed
  qed
qed

lemma predict_decompose:
  fixes env :: "('a::linorder, 'c, 'p, 'm, 's) env"
  shows "(ComputingPredictions \<notin> set (messages (new_events w (snd (predict env fd cf od rn w))))
        \<and> ExportingResults \<notin> set (messages (new_events w (snd (predict env fd cf od rn w)))))
   \<or> (\<exists>ck samples ds w2 pre.
          torch_load env (resolve env cf) = Inr ck
        \<and> mapE (MorphologyData_load env) (sort (glob_features w (resolve env fd))) = Inr samples
        \<and> MorphologyDataset env samples = Inr ds
        \<and> fs w2 = fs w \<and> trace w2 = trace w @ pre
        \<and> ComputingPredictions \<notin> set (messages pre) \<and> ExportingResults \<notin> set (messages pre)
        \<and> dispatches pre = [] \<and> file_writes pre = []
        \<and> predict env fd cf od rn w =
            (case compute_predictions env ds ck w2 of
               (Inl e, w3) \<Rightarrow> (Inl e, w3)
             | (Inr None, w3) \<Rightarrow> (Inr (), w3)
             | (Inr (Some preds), w3) \<Rightarrow>
                 export_results ds preds (resolve env cf) (model_class ck)
                   (results_path_of env od rn) w3))"
proof -
  let ?rp = "results_path_of env od rn"
  let ?pre = "[Secho (FeaturesDirMsg (resolve env fd)),
                  Secho (OutputFileMsg ?rp), Secho (CheckpointMsg (resolve env cf))]"
  let ?w1 = "w\<lparr>trace := trace w @ ?pre\<rparr>"
  have body: ?thesis
    if run: "predict env fd cf od rn w
               = predict_body env (resolve env fd) (resolve env cf) ?rp wb"
      and wb: "trace wb = trace w @ pre0" "fs wb = fs w"
      and pre0: "dispatches pre0 = []" "file_writes pre0 = []"
        "ComputingPredictions \<notin> set (messages pre0)" "ExportingResults \<notin> set (messages pre0)"
    for wb pre0
  proof -
    note G = glob_features_cong [OF wb(2), of "resolve env fd"]
    from predict_body_decompose [of env "resolve env fd" "resolve env cf" ?rp wb]
    consider
      (fail) e pre where
        "predict_body env (resolve env fd) (resolve env cf) ?rp wb
           = (Inl e, wb\<lparr>trace := trace wb @ pre\<rparr>)"
        "ComputingPredictions \<notin> set (messages pre)" "ExportingResults \<notin> set (messages pre)"
    | (reach) ck samples ds pre where
        "torch_load env (resolve env cf) = Inr ck"
        "mapE (MorphologyData_load env) (sort (glob_features wb (resolve env fd))) = Inr samples"
        "MorphologyDataset env samples = Inr ds"
        "ComputingPredictions \<notin> set (messages pre)" "ExportingResults \<notin> set (messages pre)"
        "dispatches pre = []" "file_writes pre = []"
        "predict_body env (resolve env fd) (resolve env cf) ?rp wb =
            (case compute_predictions env ds ck (wb\<lparr>trace := trace wb @ pre\<rparr>) of
               (Inl e, w3) \<Rightarrow> (Inl e, w3)
             | (Inr None, w3) \<Rightarrow> (Inr (), w3)
             | (Inr (Some preds), w3) \<Rightarrow>
                 export_results ds preds (resolve env cf) (model_class ck) ?rp w3)"
      by blast
    then show ?thesis
    proof cases
      case fail
      have "new_events w (snd (predict env fd cf od rn w)) = pre0 @ pre"
        by (rule new_events_append) (simp add: run fail(1) wb(1))
      with fail(2,3) pre0 show ?thesis by simp
    next
      case reach
      let ?w2 = "wb\<lparr>trace := trace wb @ pre\<rparr>"
      have "fs ?w2 = fs w" "trace ?w2 = trace w @ (pre0 @ pre)"
        using wb by simp_all
      moreover have "ComputingPredictions \<notin> set (messages (pre0 @ pre))"
        "ExportingResults \<notin> set (messages (pre0 @ pre))"
        "dispatches (pre0 @ pre) = []" "file_writes (pre0 @ pre) = []"
        using reach pre0 by simp_all
      moreover note reach(1) reach(2) [unfolded G] reach(3) reach(8) [folded run]
      ultimately show ?thesis by blast
    qed
  qed
  show ?thesis
  proof (cases "path_exists w ?rp")
    case False
    then have "predict env fd cf od rn w
        = predict_body env (resolve env fd) (resolve env cf) ?rp ?w1"
      by (simp add: predict_unfold Let_def)
    from body [OF this, of ?pre] show ?thesis by simp
  next
    case True
    show ?thesis
    proof (cases "stdin w")
      case Nil
      with True have "predict env fd cf od rn w
        = (Inl EOFError, w\<lparr>trace := trace w @ ?pre @ [Secho (OverwritePrompt ?rp)]\<rparr>)"
        by (simp add: predict_unfold Let_def)
      then show ?thesis by simp
    next
      case (Cons response rest)
      show ?thesis
      proof (cases "py_lower (py_strip response) \<noteq> ''y''")
        case True
        with \<open>path_exists w ?rp\<close> Cons have "predict env fd cf od rn w
          = (Inr (), w\<lparr>stdin := rest,
                trace := trace w @ ?pre @ [Secho (OverwritePrompt ?rp), Secho Stopping]\<rparr>)"
          by (simp add: predict_unfold Let_def)
        then show ?thesis by simp
      next
        case False
        with \<open>path_exists w ?rp\<close> Cons have "predict env fd cf od rn w
          = predict_body env (resolve env fd) (resolve env cf) ?rp
              (?w1\<lparr>stdin := rest,
                  trace := trace ?w1 @ [Secho (OverwritePrompt ?rp), Secho Proceeding]\<rparr>)"
          by (simp add: predict_unfold Let_def)
        from body [OF this, of "?pre @ [Secho (OverwritePrompt ?rp), Secho Proceeding]"]
        show ?thesis by simp
      qed
    qed
  qed
qed

lemma compute_predictions_cases:
  "(case compute_predictions env ds ck w of
      (Inl e, w3) \<Rightarrow> (Inl e, w3)
    | (Inr None, w3) \<Rightarrow> (Inr (), w3)
    | (Inr (Some preds), w3) \<Rightarrow> export preds w3) =
   (if py_in ''ManNet'' (model_class ck) then
      (case bindE (predict_gnn env ds ck) argmax_axis1 of
         Inl e \<Rightarrow> (Inl e, emit (Dispatch GNN ds) (secho ComputingPredictions w))
       | Inr p \<Rightarrow> export (PArray p) (emit (Dispatch GNN ds) (secho ComputingPredictions w)))
    else if py_in ''CNN'' (model_class ck) then
      (case bindE (predict_cnn env ds ck) argmax_axis1 of
         Inl e \<Rightarrow> (Inl e, emit (Dispatch CNN ds) (secho ComputingPredictions w))
       | Inr p \<Rightarrow> export (PArray p) (emit (Dispatch CNN ds) (secho ComputingPredictions w)))
    else if py_in ''XGB'' (model_class ck) then
      (case predict_xgb env ds ck of
         Inl e \<Rightarrow> (Inl e, emit (Dispatch XGB ds) (secho ComputingPredictions w))
       | Inr ps \<Rightarrow> export (PList ps) (emit (Dispatch XGB ds) (secho ComputingPredictions w)))
    else (Inr (), secho (ModelNotRecognized (model_class ck)) (secho ComputingPredictions w)))"
  by (simp add: compute_predictions_def Let_def split: sum.splits)

subsection \<open>Runs on the concrete installation\<close>

lemma run_tree:
  "predict demo_env ''feat'' ''tree.ckpt'' ''out'' (Some ''res'') (demo_world [])
   = (Inr (),
      \<lparr>fs = demo_fs, stdin = [],
       trace = [Secho (FeaturesDirMsg [''work'', ''feat'']),
        Secho (OutputFileMsg [''work'', ''out'', ''res.json'']),
        Secho (CheckpointMsg [''work'', ''tree.ckpt'']),
        Secho LoadingCheckpoint, TorchLoad [''work'', ''tree.ckpt''],
        Secho (ModelMsg ''sklearn.tree.DecisionTreeClassifier''),
        Secho LoadingData, DataLoad [''work'', ''feat'', ''a.features''],
        DataLoad [''work'', ''feat'', ''b.features''],
        Secho (DatasetLength 2), Secho ComputingPredictions,
        Secho (ModelNotRecognized ''sklearn.tree.DecisionTreeClassifier'')]\<rparr>)"
  by code_simp

lemma run_gnn:
  "predict demo_env ''feat'' ''gnn.ckpt'' ''out'' (Some ''res'') (demo_world [])
   = (Inr (),
      \<lparr>fs = demo_fs @ [([''work'', ''out'', ''res.json''],
          File (JObject
             [(''predictions'',
               JObject [(''/morph/a.features'', JString ''TPC''),
                        (''/morph/b.features'', JString ''TPC'')]),
              (''checkpoint_path'', JString ''/work/gnn.ckpt''),
              (''model'', JString ''morphoclass.models.man_net.ManNet'')]))],
       stdin = [],
       trace = [Secho (FeaturesDirMsg [''work'', ''feat'']),
        Secho (OutputFileMsg [''work'', ''out'', ''res.json'']),
        Secho (CheckpointMsg [''work'', ''gnn.ckpt'']),
        Secho LoadingCheckpoint, TorchLoad [''work'', ''gnn.ckpt''],
        Secho (ModelMsg ''morphoclass.models.man_net.ManNet''),
        Secho LoadingData, DataLoad [''work'', ''feat'', ''a.features''],
        DataLoad [''work'', ''feat'', ''b.features''],
        Secho (DatasetLength 2), Secho ComputingPredictions,
        Dispatch GNN \<lparr>data = [loaded_sample ''a.features'', loaded_sample ''b.features''],
                      y_to_label = demo_labels\<rparr>,
        Secho ExportingResults, FileWrite [''work'', ''out'', ''res.json''], Secho Done]\<rparr>)"
  by code_simp

lemma demo_trace [simp]: "trace (demo_world keys) = []" "fs (demo_world keys) = demo_fs"
  "stdin (demo_world keys) = keys"
  by (simp_all add: demo_world_def)

lemma new_events_demo [simp]: "new_events (demo_world keys) w' = trace w'"
  by (simp add: new_events_def)

lemma demo_resolve [simp]: "resolve demo_env s = [''work'', s]"
  by (simp add: demo_env_def)

lemma demo_torch_load_tree:
  "torch_load demo_env [''work'', ''tree.ckpt'']
     = Inr (demo_checkpoint ''sklearn.tree.DecisionTreeClassifier'')"
  by (simp add: demo_env_def)

lemma demo_torch_load_gnn:
  "torch_load demo_env [''work'', ''gnn.ckpt'']
     = Inr (demo_checkpoint ''morphoclass.models.man_net.ManNet'')"
  by (simp add: demo_env_def)

lemma demo_model_class [simp]: "model_class (demo_checkpoint s) = s"
  by (simp add: demo_checkpoint_def)

subsection \<open>A model of an unknown family\<close>

text \<open>
  Claim C4. When the checkpoint's \<^verbatim>\<open>model_class\<close> contains none of \<^verbatim>\<open>ManNet\<close>,
  \<^verbatim>\<open>CNN\<close> and \<^verbatim>\<open>XGB\<close>, a run of \<^verbatim>\<open>predict\<close> writes no file and leaves the whole file
  system, hence the output directory, as it was; and a run that reaches the prediction
  step returns normally, its last action being the message that the model is not
  recognized.
\<close>

theorem unrecognized_model_writes_nothing:
  fixes env :: "('a::linorder, 'c, 'p, 'm, 's) env"
  shows "torch_load env (resolve env cf) = Inr ck
     \<and> \<not> py_in ''ManNet'' (model_class ck) \<and> \<not> py_in ''CNN'' (model_class ck)
     \<and> \<not> py_in ''XGB'' (model_class ck) \<longrightarrow>
       fs (snd (predict env fd cf od rn w)) = fs w
     \<and> file_writes (new_events w (snd (predict env fd cf od rn w))) = []
     \<and> (ComputingPredictions \<in> set (messages (new_events w (snd (predict env fd cf od rn w))))
          \<longrightarrow> fst (predict env fd cf od rn w) = Inr ()
            \<and> last (trace (snd (predict env fd cf od rn w)))
                = Secho (ModelNotRecognized (model_class ck)))"
proof
  assume h: "torch_load env (resolve env cf) = Inr ck
     \<and> \<not> py_in ''ManNet'' (model_class ck) \<and> \<not> py_in ''CNN'' (model_class ck)
     \<and> \<not> py_in ''XGB'' (model_class ck)"
  from predict_effect [of env fd cf od rn w] obtain evs where
    t: "trace (snd (predict env fd cf od rn w)) = trace w @ evs" and
    n: "\<forall>ck. torch_load env (resolve env cf) = Inr ck \<and> \<not> py_in ''ManNet'' (model_class ck)
             \<and> \<not> py_in ''CNN'' (model_class ck) \<and> \<not> py_in ''XGB'' (model_class ck) \<longrightarrow>
           file_writes evs = []
         \<and> (ComputingPredictions \<in> set (messages evs) \<longrightarrow>
               fst (predict env fd cf od rn w) = Inr ()
             \<and> last evs = Secho (ModelNotRecognized (model_class ck)))" and
    f: "file_writes evs = [] \<longrightarrow> fs (snd (predict env fd cf od rn w)) = fs w"
    by blast
  from t have ne: "new_events w (snd (predict env fd cf od rn w)) = evs" by simp
  from n h have fw: "file_writes evs = []" and
    cp: "ComputingPredictions \<in> set (messages evs) \<longrightarrow>
               fst (predict env fd cf od rn w) = Inr ()
             \<and> last evs = Secho (ModelNotRecognized (model_class ck))"
    by blast+
  have "evs \<noteq> []" if "ComputingPredictions \<in> set (messages evs)" using that by auto
  then have "last (trace (snd (predict env fd cf od rn w))) = last evs"
    if "ComputingPredictions \<in> set (messages evs)" using that t by simp
  with fw cp f show "fs (snd (predict env fd cf od rn w)) = fs w
     \<and> file_writes (new_events w (snd (predict env fd cf od rn w))) = []
     \<and> (ComputingPredictions \<in> set (messages (new_events w (snd (predict env fd cf od rn w))))
          \<longrightarrow> fst (predict env fd cf od rn w) = Inr ()
            \<and> last (trace (snd (predict env fd cf od rn w)))
                = Secho (ModelNotRecognized (model_class ck)))"
    unfolding ne by simp
qed

theorem unrecognized_model_writes_nothing_witness:
  "(torch_load demo_env (resolve demo_env ''tree.ckpt'')
       = Inr (demo_checkpoint ''sklearn.tree.DecisionTreeClassifier'')
     \<and> \<not> py_in ''ManNet'' (model_class (demo_checkpoint ''sklearn.tree.DecisionTreeClassifier''))
     \<and> \<not> py_in ''CNN'' (model_class (demo_checkpoint ''sklearn.tree.DecisionTreeClassifier''))
     \<and> \<not> py_in ''XGB'' (model_class (demo_checkpoint ''sklearn.tree.DecisionTreeClassifier'')))
   \<and> ComputingPredictions \<in> set (messages (new_events (demo_world [])
        (snd (predict demo_env ''feat'' ''tree.ckpt'' ''out'' (Some ''res'') (demo_world [])))))
   \<and> fs (snd (predict demo_env ''feat'' ''tree.ckpt'' ''out'' (Some ''res'') (demo_world [])))
       = fs (demo_world [])
   \<and> fst (predict demo_env ''feat'' ''tree.ckpt'' ''out'' (Some ''res'') (demo_world [])) = Inr ()
   \<and> last (trace (snd (predict demo_env ''feat'' ''tree.ckpt'' ''out'' (Some ''res'')
        (demo_world []))))
       = Secho (ModelNotRecognized ''sklearn.tree.DecisionTreeClassifier'')"
proof -
  have h: "torch_load demo_env (resolve demo_env ''tree.ckpt'')
       = Inr (demo_checkpoint ''sklearn.tree.DecisionTreeClassifier'')
     \<and> \<not> py_in ''ManNet'' (model_class (demo_checkpoint ''sklearn.tree.DecisionTreeClassifier''))
     \<and> \<not> py_in ''CNN'' (model_class (demo_checkpoint ''sklearn.tree.DecisionTreeClassifier''))
     \<and> \<not> py_in ''XGB'' (model_class (demo_checkpoint ''sklearn.tree.DecisionTreeClassifier''))"
    by (simp only: demo_resolve demo_torch_load_tree demo_model_class demo_model_classes simp_thms)
  have c: "ComputingPredictions \<in> set (messages (new_events (demo_world [])
        (snd (predict demo_env ''feat'' ''tree.ckpt'' ''out'' (Some ''res'') (demo_world [])))))"
    by (simp add: run_tree)
  from unrecognized_model_writes_nothing
    [of demo_env "''tree.ckpt''" "demo_checkpoint ''sklearn.tree.DecisionTreeClassifier''"
        "''feat''" "''out''" "Some ''res''" "demo_world []", THEN mp, OF h] c h
  show ?thesis by (simp only: demo_model_class simp_thms)
qed

lemma run_declined:
  "predict demo_env ''feat'' ''gnn.ckpt'' ''out'' (Some ''old'') (demo_world ['' N  ''])
   = (Inr (),
      \<lparr>fs = demo_fs, stdin = [],
       trace = [Secho (FeaturesDirMsg [''work'', ''feat'']),
        Secho (OutputFileMsg [''work'', ''out'', ''old.json'']),
        Secho (CheckpointMsg [''work'', ''gnn.ckpt'']),
        Secho (OverwritePrompt [''work'', ''out'', ''old.json'']), Secho Stopping]\<rparr>)"
  by code_simp

subsection \<open>Dispatch on the model class\<close>




subsection \<open>Overwriting an earlier report\<close>

text \<open>
  Claim C7. When the results file exists, \<^verbatim>\<open>predict\<close> asks whether to overwrite it and
  reads one line. If that line, stripped of the white space around it (every character
  that Python counts as white space) and lowercased, is not \<^verbatim>\<open>y\<close>, the run returns
  at once: the file system is as before (so the results file is unchanged), the only
  actions are the three opening messages, the question and the stopping message, and
  there is no checkpoint loading, no data loading, no prediction routine and no write. If
  the line, stripped and lowercased, is \<^verbatim>\<open>y\<close>, the run goes on with the rest of the
  command.
\<close>

theorem overwrite_only_after_yes:
  fixes env :: "('a::linorder, 'c, 'p, 'm, 's) env"
  shows "(path_exists w (results_path_of env od rn) \<and> stdin w = response # rest
      \<and> py_lower (py_strip response) \<noteq> ''y'' \<longrightarrow>
        predict env fd cf od rn w =
          (Inr (),
           w\<lparr>stdin := rest,
             trace := trace w @
               [Secho (FeaturesDirMsg (resolve env fd)),
                Secho (OutputFileMsg (results_path_of env od rn)),
                Secho (CheckpointMsg (resolve env cf)),
                Secho (OverwritePrompt (results_path_of env od rn)),
                Secho Stopping]\<rparr>)
      \<and> fs (snd (predict env fd cf od rn w)) = fs w
      \<and> torch_loads (new_events w (snd (predict env fd cf od rn w))) = []
      \<and> data_loads (new_events w (snd (predict env fd cf od rn w))) = []
      \<and> dispatches (new_events w (snd (predict env fd cf od rn w))) = []
      \<and> file_writes (new_events w (snd (predict env fd cf od rn w))) = [])
   \<and> (path_exists w' (results_path_of env od' rn') \<and> stdin w' = response' # rest'
      \<and> py_lower (py_strip response') = ''y'' \<longrightarrow>
        predict env fd' cf' od' rn' w' =
          predict_body env (resolve env fd') (resolve env cf') (results_path_of env od' rn')
            (w'\<lparr>stdin := rest',
               trace := trace w' @
                 [Secho (FeaturesDirMsg (resolve env fd')),
                  Secho (OutputFileMsg (results_path_of env od' rn')),
                  Secho (CheckpointMsg (resolve env cf')),
                  Secho (OverwritePrompt (results_path_of env od' rn')),
                  Secho Proceeding]\<rparr>))"
proof (intro conjI impI)
  assume h: "path_exists w (results_path_of env od rn) \<and> stdin w = response # rest
      \<and> py_lower (py_strip response) \<noteq> ''y''"
  then show e: "predict env fd cf od rn w =
          (Inr (),
           w\<lparr>stdin := rest,
             trace := trace w @
               [Secho (FeaturesDirMsg (resolve env fd)),
                Secho (OutputFileMsg (results_path_of env od rn)),
                Secho (CheckpointMsg (resolve env cf)),
                Secho (OverwritePrompt (results_path_of env od rn)),
                Secho Stopping]\<rparr>)"
    by (simp add: predict_unfold Let_def)
  show "fs (snd (predict env fd cf od rn w)) = fs w" by (simp add: e)
  show "torch_loads (new_events w (snd (predict env fd cf od rn w))) = []" by (simp add: e)
  show "data_loads (new_events w (snd (predict env fd cf od rn w))) = []" by (simp add: e)
  show "dispatches (new_events w (snd (predict env fd cf od rn w))) = []" by (simp add: e)
  show "file_writes (new_events w (snd (predict env fd cf od rn w))) = []" by (simp add: e)
next
  assume "path_exists w' (results_path_of env od' rn') \<and> stdin w' = response' # rest'
      \<and> py_lower (py_strip response') = ''y''"
  then show "predict env fd' cf' od' rn' w' =
          predict_body env (resolve env fd') (resolve env cf') (results_path_of env od' rn')
            (w'\<lparr>stdin := rest',
               trace := trace w' @
                 [Secho (FeaturesDirMsg (resolve env fd')),
                  Secho (OutputFileMsg (results_path_of env od' rn')),
                  Secho (CheckpointMsg (resolve env cf')),
                  Secho (OverwritePrompt (results_path_of env od' rn')),
                  Secho Proceeding]\<rparr>)"
    by (simp add: predict_unfold Let_def)
qed

lemma demo_old_exists:
  "path_exists (demo_world keys) (results_path_of demo_env ''out'' (Some ''old''))"
  by code_simp

lemma demo_answers:
  "py_lower (py_strip '' N  '') \<noteq> ''y''" "py_lower (py_strip demo_yes) = ''y''"
  by code_simp+

theorem overwrite_only_after_yes_witness:
  "(path_exists (demo_world ['' N  '']) (results_path_of demo_env ''out'' (Some ''old''))
      \<and> stdin (demo_world ['' N  '']) = '' N  '' # []
      \<and> py_lower (py_strip '' N  '') \<noteq> ''y'')
   \<and> fs (snd (predict demo_env ''feat'' ''gnn.ckpt'' ''out'' (Some ''old'')
        (demo_world ['' N  '']))) = fs (demo_world ['' N  ''])
   \<and> torch_loads (new_events (demo_world ['' N  ''])
        (snd (predict demo_env ''feat'' ''gnn.ckpt'' ''out'' (Some ''old'')
          (demo_world ['' N  ''])))) = []
   \<and> (path_exists (demo_world [demo_yes]) (results_path_of demo_env ''out'' (Some ''old''))
      \<and> stdin (demo_world [demo_yes]) = demo_yes # []
      \<and> py_lower (py_strip demo_yes) = ''y'')
   \<and> predict demo_env ''feat'' ''gnn.ckpt'' ''out'' (Some ''old'') (demo_world [demo_yes])
      = predict_body demo_env (resolve demo_env ''feat'') (resolve demo_env ''gnn.ckpt'')
          (results_path_of demo_env ''out'' (Some ''old''))
          ((demo_world [demo_yes])\<lparr>stdin := [],
               trace := trace (demo_world [demo_yes]) @
                 [Secho (FeaturesDirMsg (resolve demo_env ''feat'')),
                  Secho (OutputFileMsg (results_path_of demo_env ''out'' (Some ''old''))),
                  Secho (CheckpointMsg (resolve demo_env ''gnn.ckpt'')),
                  Secho (OverwritePrompt (results_path_of demo_env ''out'' (Some ''old''))),
                  Secho Proceeding]\<rparr>)"
proof -
  have n: "path_exists (demo_world ['' N  '']) (results_path_of demo_env ''out'' (Some ''old''))
      \<and> stdin (demo_world ['' N  '']) = '' N  '' # []
      \<and> py_lower (py_strip '' N  '') \<noteq> ''y''"
    using demo_old_exists [of "['' N  '']"] demo_answers(1) by (simp only: demo_trace simp_thms)
  have y: "path_exists (demo_world [demo_yes]) (results_path_of demo_env ''out'' (Some ''old''))
      \<and> stdin (demo_world [demo_yes]) = demo_yes # []
      \<and> py_lower (py_strip demo_yes) = ''y''"
    using demo_old_exists [of "[demo_yes]"] demo_answers(2) by (simp only: demo_trace simp_thms)
  note t = overwrite_only_after_yes
    [of "demo_world ['' N  '']" demo_env "''out''" "Some ''old''" "'' N  ''" "[]"
        "''feat''" "''gnn.ckpt''"
        "demo_world [demo_yes]" "''out''" "Some ''old''" "demo_yes" "[]"
        "''feat''" "''gnn.ckpt''"]
  from t [THEN conjunct1, THEN mp, OF n] t [THEN conjunct2, THEN mp, OF y] n y
  show ?thesis by blast
qed

subsection \<open>The samples that are loaded\<close>

lemma endswith_iff: "endswith s suf \<longleftrightarrow> (\<exists>stem. s = stem @ suf)"
proof
  assume "endswith s suf"
  then have "length suf \<le> length s" "drop (length s - length suf) s = suf"
    by (simp_all add: endswith_def)
  then have "s = take (length s - length suf) s @ suf"
    by (metis append_take_drop_id)
  then show "\<exists>stem. s = stem @ suf" ..
next
  assume "\<exists>stem. s = stem @ suf"
  then show "endswith s suf" by (auto simp: endswith_def)
qed

lemma set_glob_features:
  "set (glob_features w d) =
     {p. p \<in> fst ` set (fs w) \<and> p \<noteq> [] \<and> butlast p = d
         \<and> (\<exists>stem. last p = stem @ ''.features'')}"
  unfolding glob_features_def endswith_iff by auto

text \<open>
  Claim C3. The paths that \<^verbatim>\<open>predict\<close> loads samples from are entries of the features
  directory whose name matches \<^verbatim>\<open>*.features\<close>, taken in sorted path order: the loads of
  a run are an initial part of the sorted list of exactly those entries, each once when
  the directory lists each entry once (a load that raises ends the run), and the whole list for every run that reaches the prediction
  step. Every dataset handed to a prediction routine is \<^verbatim>\<open>MorphologyDataset\<close> applied to
  the samples loaded from exactly these paths, in that order.
\<close>

theorem features_loaded_in_sorted_order:
  fixes env :: "('a::linorder, 'c, 'p, 'm, 's) env"
  shows "set (sort (glob_features w (resolve env fd))) =
       {p. p \<in> fst ` set (fs w) \<and> p \<noteq> [] \<and> butlast p = resolve env fd
           \<and> (\<exists>stem. last p = stem @ ''.features'')}
   \<and> sorted (sort (glob_features w (resolve env fd)))
   \<and> (distinct (map fst (fs w)) \<longrightarrow> distinct (sort (glob_features w (resolve env fd))))
   \<and> (\<exists>k. data_loads (new_events w (snd (predict env fd cf od rn w)))
            = take k (sort (glob_features w (resolve env fd))))
   \<and> (ComputingPredictions \<in> set (messages (new_events w (snd (predict env fd cf od rn w))))
        \<longrightarrow> data_loads (new_events w (snd (predict env fd cf od rn w)))
              = sort (glob_features w (resolve env fd)))
   \<and> (\<forall>r ds. (r, ds) \<in> set (dispatches (new_events w (snd (predict env fd cf od rn w))))
        \<longrightarrow> (\<exists>samples.
               map (MorphologyData_load env) (sort (glob_features w (resolve env fd)))
                 = map Inr samples
             \<and> MorphologyDataset env samples = Inr ds))"
proof -
  from predict_effect [of env fd cf od rn w] obtain evs k where
    t: "trace (snd (predict env fd cf od rn w)) = trace w @ evs" and
    a: "data_loads evs = take k (sort (glob_features w (resolve env fd)))" and
    b: "\<forall>r ds. (r, ds) \<in> set (dispatches evs) \<longrightarrow>
           data_loads evs = sort (glob_features w (resolve env fd))
         \<and> (\<exists>samples. mapE (MorphologyData_load env) (sort (glob_features w (resolve env fd)))
                 = Inr samples
               \<and> MorphologyDataset env samples = Inr ds)" and
    c: "ComputingPredictions \<in> set (messages evs) \<longrightarrow>
          data_loads evs = sort (glob_features w (resolve env fd)) \<and>
          (\<exists>ck. torch_load env (resolve env cf) = Inr ck
             \<and> map fst (dispatches evs) =
                 (if py_in ''ManNet'' (model_class ck) then [GNN]
                  else if py_in ''CNN'' (model_class ck) then [CNN]
                  else if py_in ''XGB'' (model_class ck) then [XGB]
                  else []))"
    by blast
  from t have ne: "new_events w (snd (predict env fd cf od rn w)) = evs" by simp
  have 1: "set (sort (glob_features w (resolve env fd))) =
       {p. p \<in> fst ` set (fs w) \<and> p \<noteq> [] \<and> butlast p = resolve env fd
           \<and> (\<exists>stem. last p = stem @ ''.features'')}"
    by (simp add: set_glob_features)
  have 2: "sorted (sort (glob_features w (resolve env fd)))" by simp
  have 3: "\<exists>k. data_loads evs = take k (sort (glob_features w (resolve env fd)))"
    using a by blast
  have 4: "ComputingPredictions \<in> set (messages evs)
        \<longrightarrow> data_loads evs = sort (glob_features w (resolve env fd))"
    using c by blast
  have 5: "\<forall>r ds. (r, ds) \<in> set (dispatches evs)
        \<longrightarrow> (\<exists>samples.
               map (MorphologyData_load env) (sort (glob_features w (resolve env fd)))
                 = map Inr samples
             \<and> MorphologyDataset env samples = Inr ds)"
    using b unfolding mapE_eq_Inr by blast
  have 6: "distinct (map fst (fs w)) \<longrightarrow> distinct (sort (glob_features w (resolve env fd)))"
    by (simp add: glob_features_def)
  from 1 2 3 4 5 6 show ?thesis unfolding ne by blast
qed

theorem features_loaded_in_sorted_order_witness:
  "distinct (map fst (fs (demo_world [])))
   \<and> distinct (sort (glob_features (demo_world []) (resolve demo_env ''feat'')))
   \<and> ComputingPredictions \<in> set (messages (new_events (demo_world [])
        (snd (predict demo_env ''feat'' ''gnn.ckpt'' ''out'' (Some ''res'') (demo_world [])))))
   \<and> (GNN, \<lparr>data = [loaded_sample ''a.features'', loaded_sample ''b.features''],
              y_to_label = demo_labels\<rparr>)
       \<in> set (dispatches (new_events (demo_world [])
           (snd (predict demo_env ''feat'' ''gnn.ckpt'' ''out'' (Some ''res'') (demo_world [])))))
   \<and> sort (glob_features (demo_world []) (resolve demo_env ''feat''))
       = [[''work'', ''feat'', ''a.features''], [''work'', ''feat'', ''b.features'']]
   \<and> data_loads (new_events (demo_world [])
        (snd (predict demo_env ''feat'' ''gnn.ckpt'' ''out'' (Some ''res'') (demo_world []))))
       = sort (glob_features (demo_world []) (resolve demo_env ''feat''))
   \<and> (\<exists>samples.
         map (MorphologyData_load demo_env)
             (sort (glob_features (demo_world []) (resolve demo_env ''feat'')))
           = map Inr samples
       \<and> MorphologyDataset demo_env samples
           = Inr \<lparr>data = [loaded_sample ''a.features'', loaded_sample ''b.features''],
                  y_to_label = demo_labels\<rparr>)"
proof -
  have c: "ComputingPredictions \<in> set (messages (new_events (demo_world [])
        (snd (predict demo_env ''feat'' ''gnn.ckpt'' ''out'' (Some ''res'') (demo_world [])))))"
    by (simp add: run_gnn)
  have d: "(GNN, \<lparr>data = [loaded_sample ''a.features'', loaded_sample ''b.features''],
              y_to_label = demo_labels\<rparr>)
       \<in> set (dispatches (new_events (demo_world [])
           (snd (predict demo_env ''feat'' ''gnn.ckpt'' ''out'' (Some ''res'') (demo_world [])))))"
    by (simp add: run_gnn)
  have s: "sort (glob_features (demo_world []) (resolve demo_env ''feat''))
       = [[''work'', ''feat'', ''a.features''], [''work'', ''feat'', ''b.features'']]"
    by code_simp
  note t = features_loaded_in_sorted_order
    [of "demo_world []" demo_env "''feat''" "''gnn.ckpt''" "''out''" "Some ''res''"]
  from t c have l: "data_loads (new_events (demo_world [])
        (snd (predict demo_env ''feat'' ''gnn.ckpt'' ''out'' (Some ''res'') (demo_world []))))
       = sort (glob_features (demo_world []) (resolve demo_env ''feat''))"
    by blast
  from t d have e: "\<exists>samples.
         map (MorphologyData_load demo_env)
             (sort (glob_features (demo_world []) (resolve demo_env ''feat'')))
           = map Inr samples
       \<and> MorphologyDataset demo_env samples
           = Inr \<lparr>data = [loaded_sample ''a.features'', loaded_sample ''b.features''],
                  y_to_label = demo_labels\<rparr>"
    by blast
  have f: "distinct (map fst (fs (demo_world [])))" by code_simp
  from t f have g: "distinct (sort (glob_features (demo_world []) (resolve demo_env ''feat'')))"
    by blast
  from c d s l e f g show ?thesis by blast
qed

subsection \<open>The report\<close>

lemma label_loop_map_of:
  "label_loop ds zs acc = Inr labels \<Longrightarrow>
   \<exists>ls. mapE (lookup_label (y_to_label ds)) (map snd zs) = Inr ls
      \<and> map_of labels = map_of acc ++ map_of (rev (zip (map (\<lambda>z. path (fst z)) zs) ls))"
proof (induction zs arbitrary: acc)
  case Nil
  then show ?case by simp
next
  case (Cons z zs)
  obtain s p where z: "z = (s, p)" by (cases z)
  from Cons.prems z obtain l where
    l: "lookup_label (y_to_label ds) p = Inr l"
       "label_loop ds zs (AList.update (path s) l acc) = Inr labels"
    by (auto split: sum.splits)
  from Cons.IH [OF l(2)] obtain ls where
    ls: "mapE (lookup_label (y_to_label ds)) (map snd zs) = Inr ls"
        "map_of labels = map_of (AList.update (path s) l acc)
            ++ map_of (rev (zip (map (\<lambda>z. path (fst z)) zs) ls))"
    by blast
  have "mapE (lookup_label (y_to_label ds)) (map snd (z # zs)) = Inr (l # ls)"
    using z l(1) ls(1) by simp
  moreover have "map_of labels
      = map_of acc ++ map_of (rev (zip (map (\<lambda>z. path (fst z)) (z # zs)) (l # ls)))"
    using ls(2) z by (simp add: update_conv' map_add_upd_left fun_eq_iff map_add_def
        split: option.splits)
  ultimately show ?case by blast
qed

lemma label_loop_distinct:
  "label_loop ds zs acc = Inr labels \<Longrightarrow> distinct (map fst acc) \<Longrightarrow> distinct (map fst labels)"
proof (induction zs arbitrary: acc)
  case Nil
  then show ?case by simp
next
  case (Cons z zs)
  obtain s p where z: "z = (s, p)" by (cases z)
  from Cons.prems(1) z obtain l where
    "label_loop ds zs (AList.update (path s) l acc) = Inr labels"
    by (auto split: sum.splits)
  moreover have "distinct (map fst (AList.update (path s) l acc))"
    using Cons.prems(2) by (simp add: distinct_update)
  ultimately show ?case by (rule Cons.IH)
qed

lemma map_of_rev_last_wins:
  "i < length kvs \<Longrightarrow>
   \<exists>j. i \<le> j \<and> j < length kvs \<and> fst (kvs ! j) = fst (kvs ! i)
      \<and> (\<forall>j'. j < j' \<and> j' < length kvs \<longrightarrow> fst (kvs ! j') \<noteq> fst (kvs ! i))
      \<and> map_of (rev kvs) (fst (kvs ! i)) = Some (snd (kvs ! j))"
proof (induction kvs rule: rev_induct)
  case Nil
  then show ?case by simp
next
  case (snoc kv kvs)
  show ?case
  proof (cases "fst kv = fst ((kvs @ [kv]) ! i)")
    case True
    then show ?thesis
      using snoc.prems by (intro exI [of _ "length kvs"]) (auto simp: nth_append)
  next
    case False
    with snoc.prems have i: "i < length kvs" by (auto simp: nth_append less_Suc_eq)
    from snoc.IH [OF i] obtain j where
      j: "i \<le> j" "j < length kvs" "fst (kvs ! j) = fst (kvs ! i)"
         "\<forall>j'. j < j' \<and> j' < length kvs \<longrightarrow> fst (kvs ! j') \<noteq> fst (kvs ! i)"
         "map_of (rev kvs) (fst (kvs ! i)) = Some (snd (kvs ! j))"
      by blast
    have ki: "(kvs @ [kv]) ! i = kvs ! i" using i by (simp add: nth_append)
    have kj: "(kvs @ [kv]) ! j = kvs ! j" using j(2) by (simp add: nth_append)
    have "\<forall>j'. j < j' \<and> j' < length (kvs @ [kv])
            \<longrightarrow> fst ((kvs @ [kv]) ! j') \<noteq> fst ((kvs @ [kv]) ! i)"
      using j(4) False ki by (auto simp: nth_append less_Suc_eq)
    moreover have "map_of (rev (kvs @ [kv])) (fst ((kvs @ [kv]) ! i))
        = Some (snd ((kvs @ [kv]) ! j))"
      using j(5) False ki kj by (cases kv) auto
    ultimately show ?thesis
      using j(1,2,3) ki kj by (intro exI [of _ j]) auto
  qed
qed

lemma dom_map_of_rev_zip:
  "length ks = length vs \<Longrightarrow> dom (map_of (rev (zip ks vs))) = set ks"
  by (simp add: dom_map_of_conv_image_fst flip: zip_rev)
     (metis length_rev map_fst_zip set_map set_rev)


text \<open>
  The export step, when it completes: the file it has written holds the checkpoint path,
  the model class and the table of labels; the keys of the table are the path strings of
  the samples that \<^verbatim>\<open>zip\<close> pairs with a prediction, each once, and a path string is
  mapped to the label of the last such sample that has it.
\<close>

lemma export_results_report:
  "export_results ds preds cf mc rp w = (Inr (), w') \<longrightarrow>
     (\<exists>items ls labels.
        iter_predictions preds = Inr items
      \<and> length ls = min (length (data ds)) (length items)
      \<and> (\<forall>i < length ls. lookup_label (y_to_label ds) (items ! i) = Inr (ls ! i))
      \<and> map_of (fs w') rp = Some (File (JObject
            [(''predictions'', JObject (map (\<lambda>(k, v). (k, JString v)) labels)),
             (''checkpoint_path'', JString (path_str cf)),
             (''model'', JString mc)]))
      \<and> distinct (map fst labels)
      \<and> fst ` set labels = path ` set (take (length ls) (data ds))
      \<and> (\<forall>i < length ls. \<exists>j. i \<le> j \<and> j < length ls
             \<and> path (data ds ! j) = path (data ds ! i)
             \<and> (\<forall>j'. j < j' \<and> j' < length ls \<longrightarrow> path (data ds ! j') \<noteq> path (data ds ! i))
             \<and> map_of labels (path (data ds ! i)) = Some (ls ! j))
      \<and> (distinct (map path (data ds)) \<and> length (data ds) \<le> length items \<longrightarrow>
            (\<forall>i < length (data ds). map_of labels (path (data ds ! i)) = Some (ls ! i))))"
proof
  assume run: "export_results ds preds cf mc rp w = (Inr (), w')"
  from export_results_effect [of preds ds rp w cf mc] run obtain labels where
    lb: "bindE (iter_predictions preds) (\<lambda>items. label_loop ds (zip (data ds) items) [])
           = Inr labels" and
    w': "w' = w\<lparr>fs := AList.update rp (File (report labels cf mc)) (fs w),
                 trace := trace w @ [Secho ExportingResults, FileWrite rp, Secho Done]\<rparr>"
    by auto
  from lb obtain items where
    it: "iter_predictions preds = Inr items" and
    ll: "label_loop ds (zip (data ds) items) [] = Inr labels"
    unfolding bindE_eq_Inr by blast
  let ?zs = "zip (data ds) items"
  let ?n = "min (length (data ds)) (length items)"
  let ?ks = "map (\<lambda>z. path (fst z)) ?zs"
  from label_loop_map_of [OF ll] obtain ls where
    me: "mapE (lookup_label (y_to_label ds)) (map snd ?zs) = Inr ls" and
    mo: "map_of labels = map_of (rev (zip ?ks ls))"
    by auto
  from mapE_Inr_nth [OF me] have
    len: "length ls = ?n" and
    lk: "\<forall>i < ?n. lookup_label (y_to_label ds) (items ! i) = Inr (ls ! i)"
    by auto
  have ks: "?ks = map path (take ?n (data ds))"
    by (simp add: map_fst_zip_take flip: map_map [of path fst, unfolded comp_def])
  have ksn: "?ks ! i = path (data ds ! i)" if "i < ?n" for i using that by simp
  have lks: "length ?ks = length ls" using len by simp
  have written: "map_of (fs w') rp = Some (File (JObject
            [(''predictions'', JObject (map (\<lambda>(k, v). (k, JString v)) labels)),
             (''checkpoint_path'', JString (path_str cf)),
             (''model'', JString mc)]))"
    by (simp add: w' update_conv' report_def)
  have dist: "distinct (map fst labels)"
    using label_loop_distinct [OF ll] by simp
  have "dom (map_of labels) = set ?ks"
    unfolding mo using dom_map_of_rev_zip [OF lks] .
  then have keys: "fst ` set labels = path ` set (take (length ls) (data ds))"
    unfolding ks len by (simp add: dom_map_of_conv_image_fst)
  have lastw: "\<exists>j. i \<le> j \<and> j < length ls
             \<and> path (data ds ! j) = path (data ds ! i)
             \<and> (\<forall>j'. j < j' \<and> j' < length ls \<longrightarrow> path (data ds ! j') \<noteq> path (data ds ! i))
             \<and> map_of labels (path (data ds ! i)) = Some (ls ! j)"
    if i: "i < length ls" for i
  proof -
    define kvs where "kvs = zip ?ks ls"
    have lkv: "length kvs = length ls" using lks by (simp add: kvs_def)
    have f: "fst (kvs ! m) = path (data ds ! m)" "snd (kvs ! m) = ls ! m"
      if "m < length ls" for m
      using that len by (simp_all add: kvs_def)
    have ikv: "i < length kvs" using i lkv by simp
    from map_of_rev_last_wins [OF ikv] obtain j where
      j: "i \<le> j" "j < length kvs" "fst (kvs ! j) = fst (kvs ! i)"
         "\<forall>j'. j < j' \<and> j' < length kvs \<longrightarrow> fst (kvs ! j') \<noteq> fst (kvs ! i)"
         "map_of (rev kvs) (fst (kvs ! i)) = Some (snd (kvs ! j))"
      by blast
    have mo': "map_of labels = map_of (rev kvs)" using mo by (simp add: kvs_def)
    from j(2) lkv have jl: "j < length ls" by simp
    have "path (data ds ! j) = path (data ds ! i)" using j(3) f(1) [OF jl] f(1) [OF i] by simp
    moreover have "\<forall>j'. j < j' \<and> j' < length ls \<longrightarrow> path (data ds ! j') \<noteq> path (data ds ! i)"
    proof (intro allI impI)
      fix j' assume a: "j < j' \<and> j' < length ls"
      with j(4) lkv have "fst (kvs ! j') \<noteq> fst (kvs ! i)" by simp
      with f(1) [of j'] f(1) [OF i] a show "path (data ds ! j') \<noteq> path (data ds ! i)" by simp
    qed
    moreover have "map_of labels (path (data ds ! i)) = Some (ls ! j)"
      using j(5) f(1) [OF i] f(2) [OF jl] unfolding mo' by simp
    ultimately show ?thesis using j(1) jl by blast
  qed
  have own: "\<forall>i < length (data ds). map_of labels (path (data ds ! i)) = Some (ls ! i)"
    if d: "distinct (map path (data ds)) \<and> length (data ds) \<le> length items"
  proof (intro allI impI)
    fix i assume i: "i < length (data ds)"
    from d len have n: "length ls = length (data ds)" by simp
    with i have il: "i < length ls" by simp
    from lastw [OF il] obtain j where
      j: "j < length ls" "path (data ds ! j) = path (data ds ! i)"
         "map_of labels (path (data ds ! i)) = Some (ls ! j)"
      by blast
    from d have "distinct (map path (data ds))" by simp
    moreover have "map path (data ds) ! j = map path (data ds) ! i"
      using j(1,2) i n by simp
    ultimately have "j = i"
      using j(1) i n nth_eq_iff_index_eq [of "map path (data ds)" j i] by simp
    with j(3) show "map_of labels (path (data ds ! i)) = Some (ls ! i)" by simp
  qed
  from it len lk written dist keys lastw own
  show "\<exists>items ls labels.
        iter_predictions preds = Inr items
      \<and> length ls = min (length (data ds)) (length items)
      \<and> (\<forall>i < length ls. lookup_label (y_to_label ds) (items ! i) = Inr (ls ! i))
      \<and> map_of (fs w') rp = Some (File (JObject
            [(''predictions'', JObject (map (\<lambda>(k, v). (k, JString v)) labels)),
             (''checkpoint_path'', JString (path_str cf)),
             (''model'', JString mc)]))
      \<and> distinct (map fst labels)
      \<and> fst ` set labels = path ` set (take (length ls) (data ds))
      \<and> (\<forall>i < length ls. \<exists>j. i \<le> j \<and> j < length ls
             \<and> path (data ds ! j) = path (data ds ! i)
             \<and> (\<forall>j'. j < j' \<and> j' < length ls \<longrightarrow> path (data ds ! j') \<noteq> path (data ds ! i))
             \<and> map_of labels (path (data ds ! i)) = Some (ls ! j))
      \<and> (distinct (map path (data ds)) \<and> length (data ds) \<le> length items \<longrightarrow>
            (\<forall>i < length (data ds). map_of labels (path (data ds ! i)) = Some (ls ! i)))"
    apply (intro exI [of _ items] exI [of _ ls] exI [of _ labels])
    apply (simp only: len)
    apply blast
    done
qed

(*C1_HERE*)

subsection \<open>An empty features directory\<close>

text \<open>
  Claim C5 does not hold of the code. With no \<^verbatim>\<open>*.features\<close> entry in the features
  directory, \<^verbatim>\<open>predict_cnn\<close> returns \<^verbatim>\<open>np.array([])\<close>, of shape \<open>(0,)\<close>, from its branch
  for an empty list, and \<^verbatim>\<open>predict_gnn\<close> returns the same array; \<^verbatim>\<open>argmax(axis=1)\<close>
  then raises for lack of an axis 1, so the run ends with an exception and writes no
  report. Only the XGB branch, which takes no argmax, completes and writes a report with
  an empty \<^verbatim>\<open>predictions\<close> object.
\<close>

theorem empty_directory_cnn_and_gnn_raise:
  "predict demo_env ''empty'' ''cnn.ckpt'' ''out'' (Some ''res'') (demo_world [])
   = (Inl AxisError,
      \<lparr>fs = demo_fs, stdin = [],
       trace = [Secho (FeaturesDirMsg [''work'', ''empty'']),
        Secho (OutputFileMsg [''work'', ''out'', ''res.json'']),
        Secho (CheckpointMsg [''work'', ''cnn.ckpt'']),
        Secho LoadingCheckpoint, TorchLoad [''work'', ''cnn.ckpt''],
        Secho (ModelMsg ''morphoclass.models.cnnet.CNNet''),
        Secho LoadingData, Secho (DatasetLength 0), Secho ComputingPredictions,
        Dispatch CNN \<lparr>data = [], y_to_label = demo_labels\<rparr>]\<rparr>)
   \<and> fst (predict demo_env ''empty'' ''gnn.ckpt'' ''out'' (Some ''res'') (demo_world []))
       = Inl AxisError
   \<and> fs (snd (predict demo_env ''empty'' ''gnn.ckpt'' ''out'' (Some ''res'') (demo_world [])))
       = demo_fs
   \<and> predict_cnn demo_env \<lparr>data = [], y_to_label = demo_labels\<rparr>
        (demo_checkpoint ''morphoclass.models.cnnet.CNNet'') = Inr \<lparr>shape = [0], elems = []\<rparr>
   \<and> argmax_axis1 \<lparr>shape = [0], elems = [] :: int list\<rparr> = Inl AxisError
   \<and> fst (predict demo_env ''empty'' ''xgb.ckpt'' ''out'' (Some ''res'') (demo_world []))
       = Inr ()
   \<and> map_of (fs (snd (predict demo_env ''empty'' ''xgb.ckpt'' ''out'' (Some ''res'')
         (demo_world [])))) [''work'', ''out'', ''res.json'']
       = Some (File (JObject [(''predictions'', JObject []),
              (''checkpoint_path'', JString ''/work/xgb.ckpt''),
              (''model'', JString ''xgboost.sklearn.XGBClassifier'')]))"
proof -
  have 1: "predict demo_env ''empty'' ''cnn.ckpt'' ''out'' (Some ''res'') (demo_world [])
   = (Inl AxisError,
      \<lparr>fs = demo_fs, stdin = [],
       trace = [Secho (FeaturesDirMsg [''work'', ''empty'']),
        Secho (OutputFileMsg [''work'', ''out'', ''res.json'']),
        Secho (CheckpointMsg [''work'', ''cnn.ckpt'']),
        Secho LoadingCheckpoint, TorchLoad [''work'', ''cnn.ckpt''],
        Secho (ModelMsg ''morphoclass.models.cnnet.CNNet''),
        Secho LoadingData, Secho (DatasetLength 0), Secho ComputingPredictions,
        Dispatch CNN \<lparr>data = [], y_to_label = demo_labels\<rparr>]\<rparr>)"
    by code_simp
  have 2: "fst (predict demo_env ''empty'' ''gnn.ckpt'' ''out'' (Some ''res'') (demo_world []))
       = Inl AxisError"
    by code_simp
  have 3: "fs (snd (predict demo_env ''empty'' ''gnn.ckpt'' ''out'' (Some ''res'') (demo_world [])))
       = demo_fs"
    by code_simp
  have 4: "predict_cnn demo_env \<lparr>data = [], y_to_label = demo_labels\<rparr>
        (demo_checkpoint ''morphoclass.models.cnnet.CNNet'') = Inr \<lparr>shape = [0], elems = []\<rparr>"
    by code_simp
  have 5: "argmax_axis1 \<lparr>shape = [0], elems = [] :: int list\<rparr> = Inl AxisError"
    by code_simp
  have 6: "fst (predict demo_env ''empty'' ''xgb.ckpt'' ''out'' (Some ''res'') (demo_world []))
       = Inr ()"
    by code_simp
  have 7: "map_of (fs (snd (predict demo_env ''empty'' ''xgb.ckpt'' ''out'' (Some ''res'')
         (demo_world [])))) [''work'', ''out'', ''res.json'']
       = Some (File (JObject [(''predictions'', JObject []),
              (''checkpoint_path'', JString ''/work/xgb.ckpt''),
              (''model'', JString ''xgboost.sklearn.XGBClassifier'')]))"
    by code_simp
  from 1 2 3 4 5 6 7 show ?thesis by blast
qed

end
